theory Spec2Isabelle
  imports Main
begin

unbundle bit_operations_syntax

section \<open>Python values the middleware works with\<close>

text \<open>
  Two kinds of text meet in the middleware. The raw headers of ASGI are byte strings, which
  Starlette decodes and encodes with latin-1: a byte string, and the text decoded from one,
  is an Isabelle \<open>string\<close>, one \<open>char\<close> per byte. An ID made by the generator or the
  transformer is any Python \<open>str\<close>: a list of code points (\<open>pystr\<close>), which need not fit
  into latin-1. The configured header name is taken to be latin-1 text, as the name of an
  HTTP header is.
\<close>

datatype exn = ValueError | ImportError | KeyError | UnicodeEncodeError | Exception string

type_synonym pystr = "nat list"

definition latin1_decode :: "string \<Rightarrow> pystr" where
  \<comment> \<open>\<open>b.decode("latin-1")\<close>: every byte is its code point.\<close>
  "latin1_decode b = map of_char b"

definition latin1_encode :: "pystr \<Rightarrow> exn + string" where
  \<comment> \<open>\<open>s.encode("latin-1")\<close>: a code point above 255 raises.\<close>
  "latin1_encode s =
     (if list_all (\<lambda>c. c < 256) s then Inr (map char_of s) else Inl UnicodeEncodeError)"

definition str_lower_char :: "char \<Rightarrow> char" where
  \<comment> \<open>\<open>str.lower()\<close> on one latin-1 character: A-Z and the accented capitals
      U+00C0..U+00DE (without the multiplication sign U+00D7) move up by 32.\<close>
  "str_lower_char c =
     (let n = (of_char c :: nat)
      in if (65 \<le> n \<and> n \<le> 90) \<or> (192 \<le> n \<and> n \<le> 222 \<and> n \<noteq> 215)
         then char_of (n + 32) else c)"

definition str_lower :: "string \<Rightarrow> string" where
  "str_lower s = map str_lower_char s"

function str_remove :: "string \<Rightarrow> string \<Rightarrow> string" where
  \<comment> \<open>\<open>s.replace(old, '')\<close>: the occurrences of \<open>old\<close> are removed from left to
      right, without overlap. Only used with a non-empty literal \<open>old\<close>.\<close>
  "str_remove old [] = []"
| "str_remove old (c # cs) =
     (if old \<noteq> [] \<and> take (length old) (c # cs) = old
      then str_remove old (drop (length old) (c # cs))
      else c # str_remove old cs)"
  by pat_completeness auto
termination
  by (relation "measure (\<lambda>(old, s). length s)") auto

definition str_strip :: "string \<Rightarrow> string \<Rightarrow> string" where
  \<comment> \<open>\<open>s.strip(chars)\<close>: leading and trailing characters of the set are dropped.\<close>
  "str_strip chars s =
     rev (dropWhile (\<lambda>c. c \<in> set chars) (rev (dropWhile (\<lambda>c. c \<in> set chars) s)))"

subsection \<open>\<open>int(s, 16)\<close>\<close>

definition is_int_space :: "char \<Rightarrow> bool" where
  \<comment> \<open>What \<open>int()\<close> skips around the literal: the ASCII white space, and the two latin-1
      characters (NEL, NBSP) that the conversion of a non-ASCII string turns into a blank.\<close>
  "is_int_space c = ((of_char c :: nat) \<in> {9, 10, 11, 12, 13, 32, 133, 160})"

definition hex_digit :: "char \<Rightarrow> nat option" where
  "hex_digit c =
     (let n = (of_char c :: nat)
      in if 48 \<le> n \<and> n \<le> 57 then Some (n - 48)
         else if 97 \<le> n \<and> n \<le> 102 then Some (n - 87)
         else if 65 \<le> n \<and> n \<le> 70 then Some (n - 55)
         else None)"

definition is_hex :: "char \<Rightarrow> bool" where
  "is_hex c = (hex_digit c \<noteq> None)"

fun hex_value :: "int \<Rightarrow> string \<Rightarrow> int" where
  \<comment> \<open>The digits are accumulated from the left; underscores between them are skipped.\<close>
  "hex_value acc [] = acc"
| "hex_value acc (c # cs) =
     (case hex_digit c of None \<Rightarrow> hex_value acc cs | Some d \<Rightarrow> hex_value (16 * acc + int d) cs)"

fun double_underscore :: "string \<Rightarrow> bool" where
  "double_underscore (c # d # cs) =
     ((c = CHR ''_'' \<and> d = CHR ''_'') \<or> double_underscore (d # cs))"
| "double_underscore _ = False"

definition py_int16 :: "string \<Rightarrow> int option" where
  \<comment> \<open>\<open>int(s, 16)\<close> on a string; \<open>None\<close> is the \<open>ValueError\<close> of an invalid literal.
      White space around the literal, a sign, a \<open>0x\<close> prefix and single underscores between
      digits (one also right after the prefix) are accepted.\<close>
  "py_int16 s =
     (let s1 = dropWhile is_int_space s;
          neg = (take 1 s1 = ''-'');
          s2 = (if take 1 s1 = ''+'' \<or> take 1 s1 = ''-'' then drop 1 s1 else s1);
          s3 = (if take 2 s2 = ''0x'' \<or> take 2 s2 = ''0X''
                then (if take 1 (drop 2 s2) = ''_'' then drop 3 s2 else drop 2 s2)
                else s2);
          body = takeWhile (\<lambda>c. is_hex c \<or> c = CHR ''_'') s3;
          rest = dropWhile (\<lambda>c. is_hex c \<or> c = CHR ''_'') s3
      in if take 1 s3 = ''_'' then None
         else if double_underscore body then None
         else if body \<noteq> [] \<and> last body = CHR ''_'' then None
         else if filter is_hex body = [] then None
         else if dropWhile is_int_space rest \<noteq> [] then None
         else Some ((if neg then - 1 else 1) * hex_value 0 body))"

subsection \<open>\<open>uuid.UUID(hex, version=...)\<close>\<close>

definition set_variant_and_version :: "int \<Rightarrow> int \<Rightarrow> int" where
  \<comment> \<open>The variant is set to RFC 4122 and the version number is written over bits 76..79.\<close>
  "set_variant_and_version i v =
     ((((i AND (NOT (push_bit 48 0xc000))) OR (push_bit 48 0x8000))
         AND (NOT (push_bit 64 0xf000))) OR (push_bit 76 v))"

definition UUID :: "string \<Rightarrow> int option \<Rightarrow> exn + int" where
  \<comment> \<open>The constructor of the standard library called with a string: the result is the
      128-bit integer of the UUID, or \<open>ValueError\<close>.\<close>
  "UUID hex version =
     (let hex1 = str_remove ''uuid:'' (str_remove ''urn:'' hex);
          hex2 = str_remove ''-'' (str_strip ''{}'' hex1)
      in if length hex2 \<noteq> 32 then Inl ValueError
         else (case py_int16 hex2 of
           None \<Rightarrow> Inl ValueError
         | Some i \<Rightarrow>
             if \<not> (0 \<le> i \<and> i < 2 ^ 128) then Inl ValueError
             else (case version of
               None \<Rightarrow> Inr i
             | Some v \<Rightarrow>
                 if \<not> (1 \<le> v \<and> v \<le> 5) then Inl ValueError
                 else Inr (set_variant_and_version i v))))"

definition uuid_version :: "int \<Rightarrow> int option" where
  \<comment> \<open>The property \<open>UUID.version\<close>: bits 76..79 when the variant is RFC 4122 (bit 63 set,
      bit 62 clear), \<open>None\<close> otherwise.\<close>
  "uuid_version u =
     (if u AND push_bit 48 0x8000 \<noteq> 0 \<and> u AND push_bit 48 0x4000 = 0
      then Some (drop_bit 76 u AND 0xf) else None)"

definition is_valid_uuid4 :: "string \<Rightarrow> exn + bool" where
  \<comment> \<open>middleware.py 16-23. A \<open>UUID\<close> object is always truthy; only \<open>ValueError\<close> is
      caught.\<close>
  "is_valid_uuid4 uuid_str =
     (case UUID uuid_str (Some 4) of
        Inr u \<Rightarrow> Inr True
      | Inl e \<Rightarrow> if e = ValueError then Inr False else Inl e)"


section \<open>The world the middleware runs in\<close>

datatype log_level = DEBUG | INFO | WARNING | ERROR | CRITICAL

record log_record =
  levelname :: log_level
  msg :: string
  args :: "string list"

text \<open>
  Everything a call can change: the records handed to the logger
  \<open>asgi_correlation_id\<close>, the context variable \<open>correlation_id\<close>, and whatever else
  the configured callables and the inner application touch (\<open>env\<close>).
\<close>

record 'e world =
  log_records :: "log_record list"
  correlation_id :: "pystr option"
  env :: 'e

text \<open>
  A Python call is a function of the world that returns the new world with either the
  value or the exception raised. An \<open>await\<close> is a call like any other: one request is
  followed from its start to its end.
\<close>

type_synonym ('a, 'e) action = "'e world \<Rightarrow> (exn + 'a) \<times> 'e world"

definition succeed :: "'a \<Rightarrow> ('a, 'e) action" where
  "succeed x w = (Inr x, w)"

definition result :: "exn + 'a \<Rightarrow> ('a, 'e) action" where
  \<comment> \<open>A computation that leaves the world alone: its value, or the exception it raises.\<close>
  "result r w = (r, w)"

definition and_then :: "('a, 'e) action \<Rightarrow> ('a \<Rightarrow> ('b, 'e) action) \<Rightarrow> ('b, 'e) action" where
  \<comment> \<open>Sequencing: an exception of the first call ends the whole.\<close>
  "and_then m f w = (case m w of (Inl e, w') \<Rightarrow> (Inl e, w') | (Inr x, w') \<Rightarrow> f x w')"

definition logger_warning :: "string \<Rightarrow> string list \<Rightarrow> (unit, 'e) action" where
  \<comment> \<open>\<open>logger.warning(msg, *args)\<close>: the record made by the call is kept; which handlers
      and levels are configured for the logger is left out.\<close>
  "logger_warning m as w =
     (Inr (), w\<lparr>log_records := log_records w @ [\<lparr>levelname = WARNING, msg = m, args = as\<rparr>]\<rparr>)"

fun percent_format :: "string \<Rightarrow> string list \<Rightarrow> string option" where
  \<comment> \<open>\<open>msg % args\<close> for templates whose only directive is \<open>%s\<close>, with one argument for
      each; \<open>None\<close> for everything else.\<close>
  "percent_format [] as = (if as = [] then Some [] else None)"
| "percent_format (c # cs) as =
     (if c \<noteq> CHR ''%'' then map_option (\<lambda>r. c # r) (percent_format cs as)
      else (case (cs, as) of
              (d # ds, a # as') \<Rightarrow>
                 if d = CHR ''s'' then map_option (\<lambda>r. a @ r) (percent_format ds as') else None
            | _ \<Rightarrow> None))"

definition getMessage :: "log_record \<Rightarrow> string option" where
  \<comment> \<open>\<open>LogRecord.getMessage()\<close>\<close>
  "getMessage r = percent_format (msg r) (args r)"

definition correlation_id_set :: "pystr \<Rightarrow> (unit, 'e) action" where
  \<comment> \<open>Modelled from the spec: the context variable of \<open>asgi_correlation_id.context\<close>, a
      slot holding at most one ID (\<open>None\<close> outside a request); this is its setter.\<close>
  "correlation_id_set v w = (Inr (), w\<lparr>correlation_id := Some v\<rparr>)"

section \<open>ASGI scopes, messages and Starlette's header view\<close>

type_synonym raw_headers = "(string \<times> string) list"

record scope =
  stype :: string
  sheaders :: raw_headers
  sother :: "(string \<times> string) list"

record message =
  mtype :: string
  mheaders :: "raw_headers option"
  mother :: "(string \<times> string) list"

text \<open>
  \<open>sother\<close> and \<open>mother\<close> stand for the keys the middleware never reads (path, status,
  body, ...). A connection scope carries a list of raw headers, pairs of name and value.
  In a message the key \<open>headers\<close> is optional: \<open>mheaders\<close> is \<open>None\<close> when the message has
  no such key. \<open>MutableHeaders(scope=d)\<close> of Starlette reads \<open>d["headers"]\<close>, raising
  \<open>KeyError\<close> when the key is missing, and is a view on that list: what is written through
  it is written to \<open>d\<close>. Its three operations used by the middleware are given on the header
  list itself.
\<close>

definition headers_get :: "raw_headers \<Rightarrow> string \<Rightarrow> string option" where
  \<comment> \<open>\<open>Headers.get(key)\<close>: the decoded value of the first entry whose raw name is the
      lower-cased key, \<open>None\<close> when there is none.\<close>
  "headers_get hs key =
     (case List.find (\<lambda>(k, v). k = str_lower key) hs of None \<Rightarrow> None | Some (k, v) \<Rightarrow> Some v)"

fun set_first :: "string \<Rightarrow> string \<Rightarrow> raw_headers \<Rightarrow> raw_headers" where
  \<comment> \<open>What \<open>__setitem__\<close> does to the list once key and value are encoded: Starlette
      collects the indexes of the entries of that name, deletes all but the first and
      assigns the first, or appends when there is none.\<close>
  "set_first k v [] = [(k, v)]"
| "set_first k v (h # hs) =
     (if fst h = k then (k, v) # filter (\<lambda>h'. fst h' \<noteq> k) hs else h # set_first k v hs)"

definition headers_setitem :: "raw_headers \<Rightarrow> string \<Rightarrow> pystr \<Rightarrow> exn + raw_headers" where
  \<comment> \<open>\<open>MutableHeaders.__setitem__\<close>: the value is encoded with latin-1 first, which raises
      \<open>UnicodeEncodeError\<close> for a code point above 255; then the first entry of that name
      takes the value and the later ones are deleted, or an entry is added at the end.\<close>
  "headers_setitem hs key v =
     (case latin1_encode v of
        Inl e \<Rightarrow> Inl e
      | Inr b \<Rightarrow> Inr (set_first (str_lower key) b hs))"

definition headers_append :: "raw_headers \<Rightarrow> string \<Rightarrow> pystr \<Rightarrow> exn + raw_headers" where
  \<comment> \<open>\<open>MutableHeaders.append\<close>: the encoded value is added at the end under the lower-cased
      name; the encoding raises as in \<open>__setitem__\<close>.\<close>
  "headers_append hs key v =
     (case latin1_encode v of
        Inl e \<Rightarrow> Inl e
      | Inr b \<Rightarrow> Inr (hs @ [(str_lower key, b)]))"

section \<open>The middleware\<close>

type_synonym 'e receive = "(message, 'e) action"
type_synonym 'e send = "message \<Rightarrow> (unit, 'e) action"
type_synonym 'e asgi_app = "scope \<Rightarrow> 'e receive \<Rightarrow> 'e send \<Rightarrow> (unit, 'e) action"

text \<open>
  The validator is only ever applied to a header value, which is text decoded from
  latin-1; the generator, the transformer and the hooks work on any \<open>str\<close>.
\<close>

record 'e middleware =
  app :: "'e asgi_app"
  header_name :: string
  update_request_header :: bool
  generator :: "(pystr, 'e) action"
  validator :: "(string \<Rightarrow> (bool, 'e) action) option"
  transformer :: "(pystr \<Rightarrow> (pystr, 'e) action) option"
  hooks :: "(pystr \<Rightarrow> (unit, 'e) action) list"

definition FAILED_VALIDATION_MESSAGE :: string where
  "FAILED_VALIDATION_MESSAGE =
     ''Generated new request ID (%s), since request header value failed validation''"

definition default_validator :: "string \<Rightarrow> (bool, 'e) action" where
  \<comment> \<open>The default of the field \<open>validator\<close>: \<open>is_valid_uuid4\<close>.\<close>
  "default_validator v w = (is_valid_uuid4 v, w)"

definition default_transformer :: "pystr \<Rightarrow> (pystr, 'e) action" where
  \<comment> \<open>The default of the field \<open>transformer\<close>: \<open>lambda a: a\<close>.\<close>
  "default_transformer a = succeed a"

definition resolve_id :: "'e middleware \<Rightarrow> string option \<Rightarrow> (pystr, 'e) action" where
  \<comment> \<open>middleware.py 58-67\<close>
  "resolve_id self header_value =
     (case header_value of
        None \<Rightarrow> generator self
      | Some hv \<Rightarrow>
          if hv = [] then generator self
          else (case validator self of
                  None \<Rightarrow> succeed (latin1_decode hv)
                | Some vd \<Rightarrow>
                    and_then (vd hv) (\<lambda>ok.
                      if \<not> ok
                      then and_then (generator self) (\<lambda>id_value.
                           and_then (logger_warning FAILED_VALIDATION_MESSAGE [hv]) (\<lambda>_.
                           succeed id_value))
                      else succeed (latin1_decode hv))))"

definition transform_id :: "'e middleware \<Rightarrow> pystr \<Rightarrow> (pystr, 'e) action" where
  \<comment> \<open>middleware.py 70-71\<close>
  "transform_id self id_value =
     (case transformer self of None \<Rightarrow> succeed id_value | Some t \<Rightarrow> t id_value)"

definition update_request_headers :: "'e middleware \<Rightarrow> string option \<Rightarrow> pystr \<Rightarrow> scope \<Rightarrow> exn + scope" where
  \<comment> \<open>middleware.py 74-75; an absent header value differs from every ID.\<close>
  "update_request_headers self header_value id_value sc =
     (if Some id_value \<noteq> map_option latin1_decode header_value \<and> update_request_header self
      then (case headers_setitem (sheaders sc) (header_name self) id_value of
              Inl e \<Rightarrow> Inl e
            | Inr hs \<Rightarrow> Inr (sc\<lparr>sheaders := hs\<rparr>))
      else Inr sc)"

fun run_hooks :: "(pystr \<Rightarrow> (unit, 'e) action) list \<Rightarrow> pystr \<Rightarrow> (unit, 'e) action" where
  \<comment> \<open>middleware.py 79-80\<close>
  "run_hooks [] id_value = succeed ()"
| "run_hooks (hook # rest) id_value = and_then (hook id_value) (\<lambda>_. run_hooks rest id_value)"

definition handle_outgoing_request :: "'e middleware \<Rightarrow> 'e send \<Rightarrow> message \<Rightarrow> (unit, 'e) action" where
  \<comment> \<open>middleware.py 82-87; an empty ID in the context is falsy, like no ID. On a
      response-start message \<open>MutableHeaders(scope=message)\<close> needs the key \<open>headers\<close>,
      and \<open>append\<close> encodes the ID.\<close>
  "handle_outgoing_request self send m w =
     (case correlation_id w of
        None \<Rightarrow> send m w
      | Some cid \<Rightarrow>
          if mtype m = ''http.response.start'' \<and> cid \<noteq> []
          then (case mheaders m of
                  None \<Rightarrow> (Inl KeyError, w)
                | Some hs \<Rightarrow>
                    (case headers_append hs (header_name self) cid of
                       Inl e \<Rightarrow> (Inl e, w)
                     | Inr hs' \<Rightarrow> send (m\<lparr>mheaders := Some hs'\<rparr>) w))
          else send m w)"

definition finish :: "'e middleware \<Rightarrow> scope \<Rightarrow> string option \<Rightarrow> 'e receive \<Rightarrow> 'e send \<Rightarrow>
    pystr \<Rightarrow> (unit, 'e) action" where
  \<comment> \<open>middleware.py 73-90: what is done with the final ID.\<close>
  "finish self sc header_value receive send id_value =
     and_then (result (update_request_headers self header_value id_value sc)) (\<lambda>sc'.
     and_then (correlation_id_set id_value) (\<lambda>_.
     and_then (run_hooks (hooks self) id_value) (\<lambda>_.
     app self sc' receive (handle_outgoing_request self send))))"

definition proceed :: "'e middleware \<Rightarrow> scope \<Rightarrow> string option \<Rightarrow> 'e receive \<Rightarrow> 'e send \<Rightarrow>
    pystr \<Rightarrow> (unit, 'e) action" where
  \<comment> \<open>middleware.py 69-90: what is done with the resolved ID.\<close>
  "proceed self sc header_value receive send id0 =
     and_then (transform_id self id0) (finish self sc header_value receive send)"

definition call :: "'e middleware \<Rightarrow> scope \<Rightarrow> 'e receive \<Rightarrow> 'e send \<Rightarrow> (unit, 'e) action" where
  \<comment> \<open>middleware.py 46-90, \<open>CorrelationIdMiddleware.__call__\<close>\<close>
  "call self sc receive send =
     (if stype sc \<noteq> ''http'' then app self sc receive send
      else
        let header_value = headers_get (sheaders sc) (str_lower (header_name self))
        in and_then (resolve_id self header_value)
             (proceed self sc header_value receive send))"

subsection \<open>Construction\<close>

record 'e optional_packages =
  celery_extension :: "(unit, 'e) action option"
  sentry_extension :: "(pystr \<Rightarrow> (unit, 'e) action) option"

text \<open>
  \<open>celery_extension\<close> is \<open>load_correlation_ids\<close> when
  \<open>asgi_correlation_id_celery_extension\<close> can be imported, \<open>sentry_extension\<close> is
  \<open>set_transaction_id\<close> when \<open>asgi_correlation_id_sentry_extension\<close> can be; \<open>None\<close> is
  the \<open>ImportError\<close>.
\<close>

definition post_init :: "'e optional_packages \<Rightarrow> 'e middleware \<Rightarrow> ('e middleware, 'e) action" where
  \<comment> \<open>middleware.py 92-110, \<open>__post_init__\<close>: it runs on the instance whose fields hold
      the arguments of the constructor.\<close>
  "post_init pk self w =
     (case (case celery_extension pk of
              None \<Rightarrow> (Inr (), w)
            | Some load_correlation_ids \<Rightarrow>
                (case load_correlation_ids w of
                   (Inl e, w') \<Rightarrow> if e = ImportError then (Inr (), w') else (Inl e, w')
                 | (Inr u, w') \<Rightarrow> (Inr (), w'))) of
        (Inl e, w1) \<Rightarrow> (Inl e, w1)
      | (Inr u, w1) \<Rightarrow>
          (case sentry_extension pk of
             None \<Rightarrow> (Inr self, w1)
           | Some set_transaction_id \<Rightarrow>
               (Inr (self\<lparr>hooks := hooks self @ [set_transaction_id]\<rparr>), w1)))"


subsection \<open>Inner applications and sinks used to run the middleware\<close>

fun respond :: "message list \<Rightarrow> 'e asgi_app" where
  \<comment> \<open>An inner application that sends the given messages in order and does nothing else.\<close>
  "respond [] sc receive send = succeed ()"
| "respond (m # ms) sc receive send = and_then (send m) (\<lambda>_. respond ms sc receive send)"

definition echo_request_headers :: "'e asgi_app" where
  \<comment> \<open>An inner application that answers with the request headers it was given.\<close>
  "echo_request_headers sc receive send =
     send \<lparr>mtype = ''http.response.body'', mheaders = Some (sheaders sc), mother = []\<rparr>"

definition record_send :: "(message list) send" where
  \<comment> \<open>A \<open>send\<close> that keeps what it is given, in order.\<close>
  "record_send m w = (Inr (), w\<lparr>env := env w @ [m]\<rparr>)"

definition no_receive :: "'e receive" where
  "no_receive w = (Inl (Exception ''receive''), w)"

definition failing :: "string \<Rightarrow> ('a, 'e) action" where
  \<comment> \<open>A callable that raises.\<close>
  "failing what w = (Inl (Exception what), w)"

definition hex32 :: "string \<Rightarrow> bool" where
  \<comment> \<open>32 hexadecimal digits, of either case.\<close>
  "hex32 v = (length v = 32 \<and> list_all is_hex v)"

definition lower_hex32 :: "string \<Rightarrow> bool" where
  \<comment> \<open>32 lower-case hexadecimal digits: what \<open>uuid4().hex\<close> produces.\<close>
  "lower_hex32 v = (length v = 32 \<and> list_all (\<lambda>c. c \<in> set ''0123456789abcdef'') v)"

definition http_scope :: "raw_headers \<Rightarrow> scope" where
  "http_scope hs = \<lparr>stype = ''http'', sheaders = hs, sother = [(''path'', ''/test'')]\<rparr>"

definition websocket_scope :: "raw_headers \<Rightarrow> scope" where
  "websocket_scope hs = \<lparr>stype = ''websocket'', sheaders = hs, sother = [(''path'', ''/ws'')]\<rparr>"

definition response_start :: "raw_headers \<Rightarrow> message" where
  "response_start hs =
     \<lparr>mtype = ''http.response.start'', mheaders = Some hs, mother = [(''status'', ''200'')]\<rparr>"


definition response_body :: message where
  "response_body = \<lparr>mtype = ''http.response.body'', mheaders = None, mother = [(''body'', ''{}'')]\<rparr>"

definition idle_world :: "(message list) world" where
  \<comment> \<open>Before a request: nothing logged, no ID in the context, nothing sent.\<close>
  "idle_world = \<lparr>log_records = [], correlation_id = None, env = []\<rparr>"

definition configured :: "(message list) asgi_app \<Rightarrow> (pystr, message list) action \<Rightarrow>
    (string \<Rightarrow> (bool, message list) action) option \<Rightarrow>
    (pystr \<Rightarrow> (pystr, message list) action) option \<Rightarrow>
    (pystr \<Rightarrow> (unit, message list) action) list \<Rightarrow> (message list) middleware" where
  \<comment> \<open>The dataclass with the default \<open>header_name\<close> and \<open>update_request_header\<close>.\<close>
  "configured a g vd t hs =
     \<lparr>app = a, header_name = ''X-Request-ID'', update_request_header = True,
      generator = g, validator = vd, transformer = t, hooks = hs\<rparr>"

definition doubling :: "pystr \<Rightarrow> (pystr, 'e) action" where
  \<comment> \<open>The transformer of the test suite: \<open>lambda a: a * 2\<close>.\<close>
  "doubling a = succeed (a @ a)"

definition with_euro :: "pystr \<Rightarrow> (pystr, 'e) action" where
  \<comment> \<open>A transformer that adds the euro sign: \<open>lambda a: a + chr(0x20AC)\<close>.\<close>
  "with_euro a = succeed (a @ [8364])"

section \<open>Facts about the Python values\<close>

lemma str_lower_char_idem: "str_lower_char (str_lower_char c) = str_lower_char c"
proof -
  define n where "n = (of_char c :: nat)"
  show ?thesis
  proof (cases "(65 \<le> n \<and> n \<le> 90) \<or> (192 \<le> n \<and> n \<le> 222 \<and> n \<noteq> 215)")
    case True
    then have lc: "str_lower_char c = char_of (n + 32)"
      by (simp add: str_lower_char_def n_def Let_def)
    have "(of_char (char_of (n + 32)) :: nat) = n + 32"
      using True by auto
    then have "str_lower_char (char_of (n + 32)) = char_of (n + 32)"
      using True unfolding str_lower_char_def Let_def by auto
    with lc show ?thesis by simp
  next
    case False
    then have "str_lower_char c = c"
      unfolding str_lower_char_def n_def Let_def by auto
    then show ?thesis by simp
  qed
qed

lemma str_lower_idem [simp]: "str_lower (str_lower s) = str_lower s"
  by (simp add: str_lower_def str_lower_char_idem)

lemma str_remove_absent:
  "old \<noteq> [] \<Longrightarrow> hd old \<notin> set s \<Longrightarrow> str_remove old s = s"
proof (induction s)
  case Nil
  then show ?case by simp
next
  case (Cons c cs)
  have "take (length old) (c # cs) \<noteq> old"
  proof
    assume "take (length old) (c # cs) = old"
    then have "hd old = c" using Cons.prems(1) by (cases old) auto
    then show False using Cons.prems(2) by simp
  qed
  then show ?case using Cons by simp
qed

lemma dropWhile_none: "\<forall>c\<in>set s. \<not> P c \<Longrightarrow> dropWhile P s = s"
  by (cases s) auto

lemma str_strip_absent: "set chars \<inter> set s = {} \<Longrightarrow> str_strip chars s = s"
proof -
  assume a: "set chars \<inter> set s = {}"
  then have 1: "dropWhile (\<lambda>c. c \<in> set chars) s = s" by (intro dropWhile_none) blast
  from a have 2: "dropWhile (\<lambda>c. c \<in> set chars) (rev s) = rev s" by (intro dropWhile_none) auto
  show ?thesis unfolding str_strip_def by (simp add: 1 2)
qed

lemma hex_digit_lt: "hex_digit c = Some d \<Longrightarrow> d < 16"
  by (auto simp: hex_digit_def Let_def split: if_splits)

lemma hex_value_bounds:
  "0 \<le> acc \<Longrightarrow> 0 \<le> hex_value acc s \<and> hex_value acc s < (acc + 1) * 16 ^ length s"
proof (induction s arbitrary: acc)
  case Nil
  then show ?case by simp
next
  case (Cons c cs)
  show ?case
  proof (cases "hex_digit c")
    case None
    have "(acc + 1) * 16 ^ length cs \<le> (acc + 1) * (16 * 16 ^ length cs)"
      using Cons.prems by (simp add: mult_left_mono)
    with Cons.IH[OF Cons.prems] None show ?thesis by simp
  next
    case (Some d)
    then have d: "int d < 16" using hex_digit_lt by fastforce
    have nn: "0 \<le> 16 * acc + int d" using Cons.prems by simp
    have "(16 * acc + int d + 1) * 16 ^ length cs \<le> (16 * acc + 16) * 16 ^ length cs"
      using d by (intro mult_right_mono) simp_all
    also have "\<dots> = (acc + 1) * (16 * 16 ^ length cs)" by (simp add: algebra_simps)
    finally have le: "(16 * acc + int d + 1) * 16 ^ length cs \<le> (acc + 1) * (16 * 16 ^ length cs)" .
    from Cons.IH[OF nn] have "0 \<le> hex_value (16 * acc + int d) cs"
      and "hex_value (16 * acc + int d) cs < (16 * acc + int d + 1) * 16 ^ length cs" by simp_all
    with le have "0 \<le> hex_value (16 * acc + int d) cs \<and>
        hex_value (16 * acc + int d) cs < (acc + 1) * (16 * 16 ^ length cs)" by linarith
    then show ?thesis using Some by simp
  qed
qed

lemma is_hex_chars:
  assumes "is_hex c"
  shows "c \<noteq> CHR ''u''" "c \<noteq> CHR ''-''" "c \<noteq> CHR ''{''" "c \<noteq> CHR ''}''" "c \<noteq> CHR ''+''"
    "c \<noteq> CHR ''_''" "c \<noteq> CHR ''x''" "c \<noteq> CHR ''X''" "\<not> is_int_space c"
  using assms by (auto simp: is_hex_def hex_digit_def is_int_space_def Let_def split: if_splits)

lemma double_underscore_absent: "CHR ''_'' \<notin> set s \<Longrightarrow> \<not> double_underscore s"
  by (induction s rule: double_underscore.induct) auto

lemma py_int16_hex:
  assumes "list_all is_hex s" "s \<noteq> []"
  shows "py_int16 s = Some (hex_value 0 s)"
proof -
  have all: "\<And>c. c \<in> set s \<Longrightarrow> is_hex c" using assms(1) by (simp add: list_all_iff)
  obtain c cs where s: "s = c # cs" using assms(2) by (cases s) auto
  have c: "is_hex c" using all s by simp
  have s1: "dropWhile is_int_space s = s" using c is_hex_chars(9) s by simp
  have t1: "take (Suc 0) s = [c]" using s by simp
  have t2: "(take 2 s = ''0x'') = False" "(take 2 s = ''0X'') = False"
  proof -
    have "take 2 s \<noteq> ''0x''"
    proof
      assume "take 2 s = ''0x''"
      then have "CHR ''x'' \<in> set (take 2 s)" by simp
      then have "CHR ''x'' \<in> set s" by (rule in_set_takeD)
      then show False using all is_hex_chars(7) by blast
    qed
    then show "(take 2 s = ''0x'') = False" by simp
    have "take 2 s \<noteq> ''0X''"
    proof
      assume "take 2 s = ''0X''"
      then have "CHR ''X'' \<in> set (take 2 s)" by simp
      then have "CHR ''X'' \<in> set s" by (rule in_set_takeD)
      then show False using all is_hex_chars(8) by blast
    qed
    then show "(take 2 s = ''0X'') = False" by simp
  qed
  have body: "takeWhile (\<lambda>c. is_hex c \<or> c = CHR ''_'') s = s"
    using all by (simp add: takeWhile_eq_all_conv)
  have rest: "dropWhile (\<lambda>c. is_hex c \<or> c = CHR ''_'') s = []"
    using all by simp
  have nu: "CHR ''_'' \<notin> set s" using all is_hex_chars(6) by blast
  have du: "double_underscore s = False" using nu double_underscore_absent by simp
  have lst: "(last s = CHR ''_'') = False" using nu assms(2) last_in_set by metis
  have flt: "filter is_hex s = s" using all by simp
  have cc: "(c = CHR ''+'') = False" "(c = CHR ''-'') = False" "(c = CHR ''_'') = False"
    using is_hex_chars[OF c] by simp_all
  show ?thesis
    unfolding py_int16_def Let_def s1
    by (simp add: t1 t2 body rest du lst flt cc assms(2))
qed

lemma UUID_hex32:
  assumes "hex32 v" "1 \<le> n" "n \<le> 5"
  shows "\<exists>u. UUID v (Some n) = Inr u"
proof -
  have len: "length v = 32" and all: "list_all is_hex v" using assms(1) by (simp_all add: hex32_def)
  have mem: "\<And>c. c \<in> set v \<Longrightarrow> is_hex c" using all by (simp add: list_all_iff)
  have ne: "v \<noteq> []" using len by auto
  have r1: "str_remove ''urn:'' v = v"
    by (rule str_remove_absent) (use mem is_hex_chars(1) in auto)
  have r2: "str_remove ''uuid:'' v = v"
    by (rule str_remove_absent) (use mem is_hex_chars(1) in auto)
  have r3: "str_strip ''{}'' v = v"
    by (rule str_strip_absent) (use mem is_hex_chars(3,4) in auto)
  have r4: "str_remove ''-'' v = v"
    by (rule str_remove_absent) (use mem is_hex_chars(2) in auto)
  have p: "py_int16 v = Some (hex_value 0 v)" using all ne by (rule py_int16_hex)
  have b: "0 \<le> hex_value 0 v \<and> hex_value 0 v < (0 + 1) * 16 ^ length v"
    by (rule hex_value_bounds) simp
  have "(16::int) ^ 32 = 2 ^ 128" by simp
  with b len have b': "0 \<le> hex_value 0 v" "hex_value 0 v < 2 ^ 128" by simp_all
  show ?thesis
    unfolding UUID_def Let_def r1 r2 r3 r4 using len p b' assms(2,3) by simp
qed

lemma is_valid_uuid4_hex32: "hex32 v \<Longrightarrow> is_valid_uuid4 v = Inr True"
  using UUID_hex32[of v 4] by (auto simp: is_valid_uuid4_def)

lemma UUID_raises_ValueError: "UUID s ver = Inl e \<Longrightarrow> e = ValueError"
  by (auto simp: UUID_def Let_def split: if_splits option.splits)

lemma uuid_version_bits:
  "uuid_version (((((i AND (NOT (push_bit 48 0xc000))) OR (push_bit 48 0x8000))
                              AND (NOT (push_bit 64 0xf000))) OR (push_bit 76 4))) = Some 4"
proof -
  let ?u = "((((i AND (NOT (push_bit 48 0xc000))) OR (push_bit 48 0x8000))
                              AND (NOT (push_bit 64 0xf000))) OR (push_bit 76 4))"
  have 1: "push_bit 64 (0xf000::int) = push_bit 76 (mask 4)" by (simp add: mask_eq_exp_minus_1)
  have 2: "(0xf::int) = mask 4" by (simp add: mask_eq_exp_minus_1)
  have 3: "bit (4::int) n \<longleftrightarrow> n = 2" for n
    using bit_exp_iff[where ?'a = int, of 2 n] by simp
  have c: "push_bit 48 (0xc000::int) = push_bit 62 (mask 2)" by (simp add: mask_eq_exp_minus_1)
  have h: "push_bit 48 (0x8000::int) = 2 ^ 63" by simp
  have l: "push_bit 48 (0x4000::int) = 2 ^ 62" by simp
  have b63: "bit ?u 63" unfolding 1 c h by (simp add: bit_simps 3)
  have b62: "\<not> bit ?u 62" unfolding 1 c h by (simp add: bit_simps 3)
  have v: "drop_bit 76 ((y AND NOT (push_bit 76 (mask 4))) OR push_bit 76 4) AND mask 4
          = (4 :: int)" for y :: int
    by (rule bit_eqI) (auto simp: bit_simps 3)
  have "drop_bit 76 ?u AND 0xf = 4" unfolding 1 2 by (rule v)
  moreover have "y AND push_bit 48 0x8000 \<noteq> 0 \<and> y AND push_bit 48 0x4000 = 0"
    if "bit y 63" and "\<not> bit y 62" for y :: int
    unfolding h l using that by (simp only: and_exp_eq_0_iff_not_bit not_not simp_thms)
  from this [OF b63 b62] have "?u AND push_bit 48 0x8000 \<noteq> 0" and "?u AND push_bit 48 0x4000 = 0"
    by blast+
  ultimately show ?thesis unfolding uuid_version_def by simp
qed

lemma uuid_version_set: "uuid_version (set_variant_and_version i 4) = Some 4"
  unfolding set_variant_and_version_def by (rule uuid_version_bits)


lemma latin1_roundtrip [simp]: "latin1_encode (latin1_decode b) = Inr b"
  by (simp add: latin1_encode_def latin1_decode_def list_all_iff map_idI)

lemma latin1_encode_Inr: "latin1_encode s = Inr b \<Longrightarrow> s = latin1_decode b"
proof -
  assume a: "latin1_encode s = Inr b"
  then have all: "\<forall>c\<in>set s. c < 256" and b: "b = map char_of s"
    by (auto simp: latin1_encode_def list_all_iff split: if_splits)
  have "map of_char (map char_of s) = s"
    using all by (induction s) auto
  with b show ?thesis by (simp add: latin1_decode_def)
qed

lemma latin1_encode_Inl: "latin1_encode s = Inl e \<Longrightarrow> e = UnicodeEncodeError"
  by (auto simp: latin1_encode_def split: if_splits)

lemma latin1_decode_eq_iff [simp]: "latin1_decode a = latin1_decode b \<longleftrightarrow> a = b"
  by (simp add: latin1_decode_def inj_map_eq_map inj_of_char)

lemma latin1_decode_Nil [simp]: "latin1_decode b = [] \<longleftrightarrow> b = []"
  by (simp add: latin1_decode_def)

lemma latin1_decode_append: "latin1_decode (a @ b) = latin1_decode a @ latin1_decode b"
  by (simp add: latin1_decode_def)

lemma euro_not_latin1: "latin1_encode (s @ [8364]) = Inl UnicodeEncodeError"
  by (simp add: latin1_encode_def)

section \<open>Facts about sequencing and header names\<close>

lemma and_then_Inr: "m w = (Inr x, w') \<Longrightarrow> and_then m f w = f x w'"
  by (simp add: and_then_def)

lemma and_then_Inl: "m w = (Inl e, w') \<Longrightarrow> and_then m f w = (Inl e, w')"
  by (simp add: and_then_def)

lemma and_then_succeed [simp]: "and_then (succeed x) f = f x"
  by (rule ext) (simp add: and_then_def succeed_def)

lemma str_lower_header_name [simp]: "str_lower ''X-Request-ID'' = ''x-request-id''"
  by code_simp

lemma str_lower_expose_headers [simp]:
  "str_lower ''Access-Control-Expose-Headers'' = ''access-control-expose-headers''"
  by code_simp

lemma headers_get_lower [simp]: "headers_get hs (str_lower k) = headers_get hs k"
  by (simp add: headers_get_def)


section \<open>Facts about the request pipeline\<close>

lemma resolve_id_app [simp]: "resolve_id (self\<lparr>app := a\<rparr>) hv = resolve_id self hv"
  by (simp add: resolve_id_def split: option.splits cong: if_cong)

lemma transform_id_app [simp]: "transform_id (self\<lparr>app := a\<rparr>) i = transform_id self i"
  by (simp add: transform_id_def split: option.splits)

lemma update_request_headers_app [simp]:
  "update_request_headers (self\<lparr>app := a\<rparr>) hv i sc = update_request_headers self hv i sc"
  by (simp add: update_request_headers_def)

lemma and_then_unit [simp]: "and_then m succeed = m"
  by (rule ext) (auto simp: and_then_def succeed_def split: prod.splits sum.splits)

lemma and_then_result_Inr [simp]: "and_then (result (Inr x)) f = f x"
  by (rule ext) (simp add: and_then_def result_def)

lemma and_then_result_Inl [simp]: "and_then (result (Inl e)) f w = (Inl e, w)"
  by (simp add: and_then_def result_def)

lemma respond_single: "respond [m] sc receive send = send m"
  by simp

lemma lower_hex32_nonempty: "lower_hex32 v \<Longrightarrow> v \<noteq> []"
  by (auto simp: lower_hex32_def)

lemma call_http:
  "stype sc = ''http'' \<Longrightarrow>
   call self sc receive send =
     and_then (resolve_id self (headers_get (sheaders sc) (header_name self)))
       (proceed self sc (headers_get (sheaders sc) (header_name self)) receive send)"
  by (simp add: call_def Let_def)

lemma call_http_steps:
  assumes "stype sc = ''http''"
    and "resolve_id self (headers_get (sheaders sc) (header_name self)) w = (Inr id0, w1)"
    and "transform_id self id0 w1 = (Inr idv, w2)"
  shows "call self sc receive send w =
     finish self sc (headers_get (sheaders sc) (header_name self)) receive send idv w2"
  using assms by (simp add: call_http proceed_def and_then_def)

lemma call_http_resolve_raises:
  assumes "stype sc = ''http''"
    and "resolve_id self (headers_get (sheaders sc) (header_name self)) w = (Inl e, w1)"
  shows "call self sc receive send w = (Inl e, w1)"
  using assms by (simp add: call_http and_then_def)

lemma call_http_transform_raises:
  assumes "stype sc = ''http''"
    and "resolve_id self (headers_get (sheaders sc) (header_name self)) w = (Inr id0, w1)"
    and "transform_id self id0 w1 = (Inl e, w2)"
  shows "call self sc receive send w = (Inl e, w2)"
  using assms by (simp add: call_http proceed_def and_then_def)

lemma finish_ok:
  "update_request_headers self hv f sc = Inr sc' \<Longrightarrow>
   finish self sc hv receive send f w =
     and_then (run_hooks (hooks self) f)
       (\<lambda>_. app self sc' receive (handle_outgoing_request self send))
       (w\<lparr>correlation_id := Some f\<rparr>)"
  by (simp add: finish_def) (simp add: and_then_def correlation_id_set_def)

lemma finish_raises:
  "update_request_headers self hv f sc = Inl e \<Longrightarrow> finish self sc hv receive send f w = (Inl e, w)"
  by (simp add: finish_def)

lemma run_hooks_raise:
  "run_hooks pre i w = (Inr (), w3) \<Longrightarrow> h i w3 = (Inl e, w4) \<Longrightarrow>
     run_hooks (pre @ h # post) i w = (Inl e, w4)"
proof (induction pre arbitrary: w)
  case Nil
  then show ?case by (simp add: succeed_def and_then_def)
next
  case (Cons p pre)
  obtain r w' where p: "p i w = (r, w')" by (cases "p i w")
  show ?case
  proof (cases r)
    case (Inl x)
    with p Cons.prems(1) show ?thesis by (simp add: and_then_def)
  next
    case (Inr u)
    with p Cons.prems(1) have "run_hooks pre i w' = (Inr (), w3)" by (simp add: and_then_def)
    from Cons.IH[OF this Cons.prems(2)] p Inr show ?thesis by (simp add: and_then_def)
  qed
qed

lemma set_first_same: "filter (\<lambda>h. fst h = k) (set_first k v hs) = [(k, v)]"
  by (induction hs) (auto simp: filter_empty_conv)

lemma set_first_other:
  "filter (\<lambda>h. fst h \<noteq> k) (set_first k v hs) = filter (\<lambda>h. fst h \<noteq> k) hs"
  by (induction hs) auto

lemma set_first_before:
  "takeWhile (\<lambda>h. fst h \<noteq> k) (set_first k v hs) = takeWhile (\<lambda>h. fst h \<noteq> k) hs"
  by (induction hs) auto

lemma find_set_first: "List.find (\<lambda>(k', v'). k' = k) (set_first k v hs) = Some (k, v)"
  by (induction hs) (auto simp: case_prod_beta)

lemma headers_get_set_first: "headers_get (set_first (str_lower key) v hs) key = Some v"
  by (simp add: headers_get_def find_set_first)

lemma set_first_changes:
  "headers_get hs key \<noteq> Some v \<Longrightarrow> set_first (str_lower key) v hs \<noteq> hs"
  using headers_get_set_first [of key v hs] by auto

section \<open>Requests that are not HTTP\<close>

text \<open>
  Claim C7. When the type of the scope is not \<open>http\<close>, a call of the middleware is the
  call of the inner application on the same scope, \<open>receive\<close> and \<open>send\<close>, in the same
  world: the generator, the validator, the transformer and the hooks are not called, nothing
  is logged, the context variable is not set and no header list is touched.
\<close>

theorem non_http_passes_through:
  "stype sc \<noteq> ''http'' \<Longrightarrow> call self sc receive send w = app self sc receive send w"
  by (simp add: call_def)

theorem non_http_passes_through_witness:
  "stype (websocket_scope [(''x-request-id'', ''bad-uuid'')]) \<noteq> ''http'' \<and>
   call (configured (respond [response_body]) (failing ''generator'') (Some (\<lambda>v. failing ''validator''))
           (Some (\<lambda>v. failing ''transformer'')) [\<lambda>v. failing ''hook''])
        (websocket_scope [(''x-request-id'', ''bad-uuid'')]) no_receive record_send idle_world
     = (Inr (), idle_world\<lparr>env := [response_body]\<rparr>)"
  using non_http_passes_through [of "websocket_scope [(''x-request-id'', ''bad-uuid'')]"
      "configured (respond [response_body]) (failing ''generator'') (Some (\<lambda>v. failing ''validator''))
           (Some (\<lambda>v. failing ''transformer'')) [\<lambda>v. failing ''hook'']"
      no_receive record_send idle_world]
  by (simp add: websocket_scope_def configured_def record_send_def idle_world_def and_then_def succeed_def)


section \<open>The outgoing wrapper\<close>




text \<open>
  Claim C1. The wrapper adds the correlation header and nothing else: a response without
  \<open>Access-Control-Expose-Headers\<close> leaves without it, and one that declares
  \<open>test1, test2\<close> leaves with that value unchanged.
\<close>

theorem expose_headers_left_alone:
  "handle_outgoing_request (configured (respond []) (failing ''generator'') None None []) record_send
     (response_start []) (idle_world\<lparr>correlation_id := Some (latin1_decode ''abc'')\<rparr>)
   = (Inr (), idle_world\<lparr>correlation_id := Some (latin1_decode ''abc''),
        env := [response_start [(''x-request-id'', ''abc'')]]\<rparr>) \<and>
   headers_get [(''x-request-id'', ''abc'')] ''Access-Control-Expose-Headers'' = None \<and>
   handle_outgoing_request (configured (respond []) (failing ''generator'') None None []) record_send
     (response_start [(''access-control-expose-headers'', ''test1, test2'')])
     (idle_world\<lparr>correlation_id := Some (latin1_decode ''abc'')\<rparr>)
   = (Inr (), idle_world\<lparr>correlation_id := Some (latin1_decode ''abc''),
        env := [response_start [(''access-control-expose-headers'', ''test1, test2''),
                                (''x-request-id'', ''abc'')]]\<rparr>)"
  by (simp add: handle_outgoing_request_def headers_append_def headers_get_def
      response_start_def configured_def record_send_def idle_world_def)


section \<open>Resolving the ID\<close>

lemma bad_uuid_rejected: "is_valid_uuid4 ''bad-uuid'' = Inr False"
  by code_simp

lemma failed_validation_text:
  "getMessage \<lparr>levelname = WARNING, msg = FAILED_VALIDATION_MESSAGE, args = [v]\<rparr> =
     Some (''Generated new request ID ('' @ v @ ''), since request header value failed validation'')"
  by (simp add: getMessage_def FAILED_VALIDATION_MESSAGE_def)

lemma update_request_headers_encodable:
  "latin1_encode f = Inr b \<Longrightarrow> \<exists>sc'. update_request_headers self hv f sc = Inr sc'"
  by (simp add: update_request_headers_def headers_setitem_def)

lemma proceed_plain:
  assumes "i \<noteq> []"
  shows "proceed (configured (respond [response_start []]) g vd None []) (http_scope hs) hv
        no_receive record_send (latin1_decode i) w
      = (Inr (), w\<lparr>correlation_id := Some (latin1_decode i),
           env := env w @ [response_start [(''x-request-id'', i)]]\<rparr>)"
proof -
  let ?c = "configured (respond [response_start []]) g vd None []"
  obtain sc' where u: "update_request_headers ?c hv (latin1_decode i) (http_scope hs) = Inr sc'"
    using update_request_headers_encodable [OF latin1_roundtrip] by blast
  have t: "transform_id ?c (latin1_decode i) = succeed (latin1_decode i)"
    by (simp add: transform_id_def configured_def)
  have o: "handle_outgoing_request ?c record_send (response_start [])
        (w\<lparr>correlation_id := Some (latin1_decode i)\<rparr>)
      = record_send (response_start [(''x-request-id'', i)])
          (w\<lparr>correlation_id := Some (latin1_decode i)\<rparr>)"
    using assms
    by (simp add: handle_outgoing_request_def headers_append_def configured_def response_start_def)
  have h: "hooks ?c = []" and a: "app ?c = respond [response_start []]"
    by (simp_all add: configured_def)
  show ?thesis
    unfolding proceed_def t and_then_succeed finish_ok [OF u] h a
    by (simp add: o) (simp add: record_send_def)
qed

text \<open>
  Claim C2. In an HTTP request the header value is looked up under the configured name, and
  the resolved ID, with which the call goes on, follows the first rule that applies. With
  no header value, or an empty one, it is whatever the generator returns, and the
  middleware logs nothing of its own. With a non-empty value that the configured validator
  rejects, it is what the generator returns, and one record of level WARNING is added to
  the log, made of the template \<open>FAILED_VALIDATION_MESSAGE\<close> and the rejected value, whose
  text is the template with the value in place of \<open>%s\<close>. With a non-empty value and no
  validator, or a validator that accepts it, it is the header value unchanged.
\<close>

theorem resolution_rules:
  assumes http: "stype sc = ''http''"
    and hv: "hv = headers_get (sheaders sc) (header_name self)"
  shows
  "(hv = None \<or> hv = Some [] \<longrightarrow>
      resolve_id self hv w = generator self w \<and>
      call self sc receive send w =
        and_then (generator self) (proceed self sc hv receive send) w) \<and>
   (hv = Some v \<and> v \<noteq> [] \<and> validator self = Some vd \<and> vd v w = (Inr False, w0) \<and>
    generator self w0 = (Inr g, w1) \<longrightarrow>
      resolve_id self hv w =
        (Inr g, w1\<lparr>log_records := log_records w1 @
            [\<lparr>levelname = WARNING, msg = FAILED_VALIDATION_MESSAGE, args = [v]\<rparr>]\<rparr>) \<and>
      call self sc receive send w =
        proceed self sc hv receive send g
          (w1\<lparr>log_records := log_records w1 @
            [\<lparr>levelname = WARNING, msg = FAILED_VALIDATION_MESSAGE, args = [v]\<rparr>]\<rparr>) \<and>
      getMessage \<lparr>levelname = WARNING, msg = FAILED_VALIDATION_MESSAGE, args = [v]\<rparr> =
        Some (''Generated new request ID ('' @ v @ ''), since request header value failed validation'')) \<and>
   (hv = Some v \<and> v \<noteq> [] \<and> validator self = None \<longrightarrow>
      resolve_id self hv w = (Inr (latin1_decode v), w) \<and>
      call self sc receive send w = proceed self sc hv receive send (latin1_decode v) w) \<and>
   (hv = Some v \<and> v \<noteq> [] \<and> validator self = Some vd \<and> vd v w = (Inr True, w0) \<longrightarrow>
      resolve_id self hv w = (Inr (latin1_decode v), w0) \<and>
      call self sc receive send w = proceed self sc hv receive send (latin1_decode v) w0)"
proof -
  have c: "call self sc receive send w = and_then (resolve_id self hv) (proceed self sc hv receive send) w"
    unfolding hv call_http [OF http] ..
  have a: "resolve_id self hv w = generator self w" if "hv = None \<or> hv = Some []"
    using that by (auto simp: resolve_id_def)
  have a': "and_then (resolve_id self hv) k w = and_then (generator self) k w"
    if "hv = None \<or> hv = Some []" for k :: "pystr \<Rightarrow> (unit, 'a) action"
    using a [OF that] by (simp add: and_then_def)
  have b: "resolve_id self hv w =
        (Inr g, w1\<lparr>log_records := log_records w1 @
            [\<lparr>levelname = WARNING, msg = FAILED_VALIDATION_MESSAGE, args = [v]\<rparr>]\<rparr>)"
    if "hv = Some v \<and> v \<noteq> [] \<and> validator self = Some vd \<and> vd v w = (Inr False, w0) \<and>
        generator self w0 = (Inr g, w1)"
    using that by (simp add: resolve_id_def and_then_def succeed_def logger_warning_def)
  have d: "resolve_id self hv w = (Inr (latin1_decode v), w)"
    if "hv = Some v \<and> v \<noteq> [] \<and> validator self = None"
    using that by (simp add: resolve_id_def succeed_def)
  have e: "resolve_id self hv w = (Inr (latin1_decode v), w0)"
    if "hv = Some v \<and> v \<noteq> [] \<and> validator self = Some vd \<and> vd v w = (Inr True, w0)"
    using that by (simp add: resolve_id_def and_then_def succeed_def)
  show ?thesis
    unfolding c
    using a a' b d e failed_validation_text [of v]
    by (auto simp: and_then_def)
qed

theorem resolution_rules_witness:
  "call (configured (respond [response_start []]) (succeed (latin1_decode ''generated''))
           (Some default_validator) None [])
        (http_scope []) no_receive record_send idle_world
     = (Inr (), idle_world\<lparr>correlation_id := Some (latin1_decode ''generated''),
          env := [response_start [(''x-request-id'', ''generated'')]]\<rparr>) \<and>
   call (configured (respond [response_start []]) (succeed (latin1_decode ''generated''))
           (Some default_validator) None [])
        (http_scope [(''x-request-id'', [])]) no_receive record_send idle_world
     = (Inr (), idle_world\<lparr>correlation_id := Some (latin1_decode ''generated''),
          env := [response_start [(''x-request-id'', ''generated'')]]\<rparr>) \<and>
   call (configured (respond [response_start []]) (succeed (latin1_decode ''generated''))
           (Some default_validator) None [])
        (http_scope [(''x-request-id'', ''bad-uuid'')]) no_receive record_send idle_world
     = (Inr (), idle_world\<lparr>log_records :=
            [\<lparr>levelname = WARNING, msg = FAILED_VALIDATION_MESSAGE, args = [''bad-uuid'']\<rparr>],
          correlation_id := Some (latin1_decode ''generated''),
          env := [response_start [(''x-request-id'', ''generated'')]]\<rparr>) \<and>
   getMessage \<lparr>levelname = WARNING, msg = FAILED_VALIDATION_MESSAGE, args = [''bad-uuid'']\<rparr>
     = Some ''Generated new request ID (bad-uuid), since request header value failed validation'' \<and>
   call (configured (respond [response_start []]) (succeed (latin1_decode ''generated'')) None None [])
        (http_scope [(''x-request-id'', ''bad-uuid'')]) no_receive record_send idle_world
     = (Inr (), idle_world\<lparr>correlation_id := Some (latin1_decode ''bad-uuid''),
          env := [response_start [(''x-request-id'', ''bad-uuid'')]]\<rparr>) \<and>
   call (configured (respond [response_start []]) (succeed (latin1_decode ''generated''))
           (Some default_validator) None [])
        (http_scope [(''x-request-id'', ''0123456789abcdef0123456789abcdef'')])
        no_receive record_send idle_world
     = (Inr (), idle_world\<lparr>correlation_id := Some (latin1_decode ''0123456789abcdef0123456789abcdef''),
          env := [response_start [(''x-request-id'', ''0123456789abcdef0123456789abcdef'')]]\<rparr>)"
proof -
  let ?gen = "succeed (latin1_decode ''generated'') :: (pystr, message list) action"
  let ?d = "configured (respond [response_start []]) ?gen (Some default_validator) None []"
  let ?n = "configured (respond [response_start []]) ?gen None None []"
  let ?hex = "''0123456789abcdef0123456789abcdef''"
  let ?rec = "\<lparr>levelname = WARNING, msg = FAILED_VALIDATION_MESSAGE, args = [''bad-uuid'']\<rparr>"
  let ?wl = "idle_world\<lparr>log_records := log_records idle_world @ [?rec]\<rparr>"
  have ok: "is_valid_uuid4 ?hex = Inr True"
    by (rule is_valid_uuid4_hex32) (simp add: hex32_def is_hex_def hex_digit_def)
  have http: "stype (http_scope hs) = ''http''" for hs by (simp add: http_scope_def)
  note ev = proceed_plain
  have g1: "headers_get (sheaders (http_scope [])) (header_name ?d) = None"
    and g2: "headers_get (sheaders (http_scope [(''x-request-id'', [])])) (header_name ?d) = Some []"
    and g3: "headers_get (sheaders (http_scope [(''x-request-id'', ''bad-uuid'')])) (header_name ?d)
        = Some ''bad-uuid''"
    and g4: "headers_get (sheaders (http_scope [(''x-request-id'', ''bad-uuid'')])) (header_name ?n)
        = Some ''bad-uuid''"
    and g5: "headers_get (sheaders (http_scope [(''x-request-id'', ?hex)])) (header_name ?d) = Some ?hex"
    by (simp_all add: http_scope_def configured_def headers_get_def)
  have gen: "and_then (generator ?d) k w = k (latin1_decode ''generated'') w"
    for k :: "pystr \<Rightarrow> (unit, message list) action" and w
    by (simp add: configured_def)
  have h1: "None = None \<or> None = Some ([] :: string)" by simp
  have c1: "call ?d (http_scope []) no_receive record_send idle_world
      = and_then (generator ?d) (proceed ?d (http_scope []) None no_receive record_send) idle_world"
    by (rule resolution_rules [OF http g1 [symmetric], THEN conjunct1, rule_format, OF h1,
          THEN conjunct2])
  have h2: "Some [] = None \<or> Some [] = Some ([] :: string)" by simp
  have c2: "call ?d (http_scope [(''x-request-id'', [])]) no_receive record_send idle_world
      = and_then (generator ?d)
          (proceed ?d (http_scope [(''x-request-id'', [])]) (Some []) no_receive record_send)
          idle_world"
    by (rule resolution_rules [OF http g2 [symmetric], THEN conjunct1, rule_format, OF h2,
          THEN conjunct2])
  have h3: "Some ''bad-uuid'' = Some ''bad-uuid'' \<and> ''bad-uuid'' \<noteq> [] \<and>
      validator ?d = Some default_validator \<and>
      default_validator ''bad-uuid'' idle_world = (Inr False, idle_world) \<and>
      generator ?d idle_world = (Inr (latin1_decode ''generated''), idle_world)"
    by (simp add: configured_def default_validator_def bad_uuid_rejected succeed_def)
  note t3 = resolution_rules [OF http g3 [symmetric], THEN conjunct2, THEN conjunct1, rule_format,
      OF h3]
  have c3: "call ?d (http_scope [(''x-request-id'', ''bad-uuid'')]) no_receive record_send idle_world
      = proceed ?d (http_scope [(''x-request-id'', ''bad-uuid'')]) (Some ''bad-uuid'') no_receive
          record_send (latin1_decode ''generated'') ?wl"
    by (rule t3 [THEN conjunct2, THEN conjunct1])
  have m3: "getMessage ?rec
      = Some (''Generated new request ID ('' @ ''bad-uuid'' @
              ''), since request header value failed validation'')"
    by (rule t3 [THEN conjunct2, THEN conjunct2])
  have h4: "Some ''bad-uuid'' = Some ''bad-uuid'' \<and> ''bad-uuid'' \<noteq> [] \<and> validator ?n = None"
    by (simp add: configured_def)
  have c4: "call ?n (http_scope [(''x-request-id'', ''bad-uuid'')]) no_receive record_send idle_world
      = proceed ?n (http_scope [(''x-request-id'', ''bad-uuid'')]) (Some ''bad-uuid'') no_receive
          record_send (latin1_decode ''bad-uuid'') idle_world"
    by (rule resolution_rules [OF http g4 [symmetric], THEN conjunct2, THEN conjunct2,
          THEN conjunct1, rule_format, OF h4, THEN conjunct2])
  have h5: "Some ?hex = Some ?hex \<and> ?hex \<noteq> [] \<and> validator ?d = Some default_validator \<and>
      default_validator ?hex idle_world = (Inr True, idle_world)"
    by (simp add: configured_def default_validator_def ok)
  have c5: "call ?d (http_scope [(''x-request-id'', ?hex)]) no_receive record_send idle_world
      = proceed ?d (http_scope [(''x-request-id'', ?hex)]) (Some ?hex) no_receive
          record_send (latin1_decode ?hex) idle_world"
    by (rule resolution_rules [OF http g5 [symmetric], THEN conjunct2, THEN conjunct2,
          THEN conjunct2, rule_format, OF h5, THEN conjunct2])
  show ?thesis
    unfolding c1 c2 c3 c4 c5 gen
    using m3 by (simp add: ev) (simp add: idle_world_def)
qed

section \<open>Construction\<close>

text \<open>
  Claim C3, as the code has it. After construction the hook list is the list given to the
  constructor, followed by \<open>set_transaction_id\<close> when the Sentry extension can be
  imported; every other field is as given. When the Celery extension can be imported its
  \<open>load_correlation_ids\<close> is called first; an \<open>ImportError\<close> it raises is passed over, any
  other exception ends the construction.
\<close>

theorem construction_registers_extensions:
  "(celery_extension pk = None \<longrightarrow>
      post_init pk self w =
        (Inr (self\<lparr>hooks := hooks self @ (case sentry_extension pk of None \<Rightarrow> [] | Some h \<Rightarrow> [h])\<rparr>), w)) \<and>
   (celery_extension pk = Some load \<and> (load w = (Inr (), w1) \<or> load w = (Inl ImportError, w1)) \<longrightarrow>
      post_init pk self w =
        (Inr (self\<lparr>hooks := hooks self @ (case sentry_extension pk of None \<Rightarrow> [] | Some h \<Rightarrow> [h])\<rparr>), w1)) \<and>
   (celery_extension pk = Some load \<and> load w = (Inl e, w1) \<and> e \<noteq> ImportError \<longrightarrow>
      post_init pk self w = (Inl e, w1))"
  by (auto simp: post_init_def split: option.splits)

theorem construction_registers_extensions_witness:
  "post_init \<lparr>celery_extension = None, sentry_extension = Some (\<lambda>v. succeed ())\<rparr>
      (configured (respond []) (succeed (latin1_decode ''generated'')) None None [\<lambda>v. failing ''mine'']) idle_world
    = (Inr (configured (respond []) (succeed (latin1_decode ''generated'')) None None [\<lambda>v. failing ''mine'', \<lambda>v. succeed ()]),
       idle_world) \<and>
   post_init \<lparr>celery_extension = Some (logger_warning ''loaded'' []), sentry_extension = None\<rparr>
      (configured (respond []) (succeed (latin1_decode ''generated'')) None None [\<lambda>v. failing ''mine'']) idle_world
    = (Inr (configured (respond []) (succeed (latin1_decode ''generated'')) None None [\<lambda>v. failing ''mine'']),
       idle_world\<lparr>log_records := [\<lparr>levelname = WARNING, msg = ''loaded'', args = []\<rparr>]\<rparr>) \<and>
   post_init \<lparr>celery_extension = Some (failing ''celery''), sentry_extension = Some (\<lambda>v. succeed ())\<rparr>
      (configured (respond []) (succeed (latin1_decode ''generated'')) None None [\<lambda>v. failing ''mine'']) idle_world
    = (Inl (Exception ''celery''), idle_world)"
proof -
  let ?cfg = "configured (respond []) (succeed (latin1_decode ''generated'')) None None [\<lambda>v. failing ''mine'']"
  let ?sentry = "\<lparr>celery_extension = None, sentry_extension = Some (\<lambda>v. succeed ())\<rparr>
      :: (message list) optional_packages"
  let ?celery = "\<lparr>celery_extension = Some (logger_warning ''loaded'' []), sentry_extension = None\<rparr>
      :: (message list) optional_packages"
  let ?broken = "\<lparr>celery_extension = Some (failing ''celery''), sentry_extension = Some (\<lambda>v. succeed ())\<rparr>
      :: (message list) optional_packages"
  let ?w1 = "idle_world\<lparr>log_records := [\<lparr>levelname = WARNING, msg = ''loaded'', args = []\<rparr>]\<rparr>"
  have c1: "celery_extension ?sentry = None" by simp
  have s1: "(case sentry_extension ?sentry of None \<Rightarrow> [] | Some h \<Rightarrow> [h]) = [\<lambda>v. succeed ()]"
    by simp
  have c2: "celery_extension ?celery = Some (logger_warning ''loaded'' []) \<and>
      (logger_warning ''loaded'' [] idle_world = (Inr (), ?w1) \<or>
       logger_warning ''loaded'' [] idle_world = (Inl ImportError, ?w1))"
    by (simp add: logger_warning_def idle_world_def)
  have s2: "(case sentry_extension ?celery of None \<Rightarrow> [] | Some h \<Rightarrow> [h]) = []"
    by simp
  have c3: "celery_extension ?broken = Some (failing ''celery'') \<and>
      failing ''celery'' idle_world = (Inl (Exception ''celery''), idle_world) \<and>
      Exception ''celery'' \<noteq> ImportError"
    by (simp add: failing_def)
  have r1: "?cfg\<lparr>hooks := hooks ?cfg @ [\<lambda>v. succeed ()]\<rparr>
      = configured (respond []) (succeed (latin1_decode ''generated'')) None None [\<lambda>v. failing ''mine'', \<lambda>v. succeed ()]"
    by (simp add: configured_def)
  have r2: "?cfg\<lparr>hooks := hooks ?cfg @ []\<rparr> = ?cfg"
    by simp
  have a: "post_init ?sentry ?cfg idle_world
      = (Inr (?cfg\<lparr>hooks := hooks ?cfg @ [\<lambda>v. succeed ()]\<rparr>), idle_world)"
    using construction_registers_extensions [where pk = ?sentry and self = ?cfg and w = idle_world,
        THEN conjunct1, rule_format, OF c1]
    unfolding s1 .
  have b: "post_init ?celery ?cfg idle_world = (Inr (?cfg\<lparr>hooks := hooks ?cfg @ []\<rparr>), ?w1)"
    using construction_registers_extensions [where pk = ?celery and self = ?cfg and w = idle_world,
        THEN conjunct2, THEN conjunct1, rule_format, OF c2]
    unfolding s2 .
  have c: "post_init ?broken ?cfg idle_world = (Inl (Exception ''celery''), idle_world)"
    by (rule construction_registers_extensions [where pk = ?broken and self = ?cfg and w = idle_world,
        THEN conjunct2, THEN conjunct2, rule_format, OF c3])
  show ?thesis
    unfolding a b c r1 r2 by simp
qed


text \<open>
  Claim C3 as stated fails: built from the same arguments, with an empty hook list, the
  middleware has one hook where the Sentry extension can be imported and none where it
  cannot.
\<close>

theorem construction_hooks_counterexample:
  "fst (post_init \<lparr>celery_extension = None, sentry_extension = Some (\<lambda>v. succeed ())\<rparr>
          (configured (respond []) (succeed (latin1_decode ''generated'')) None None []) idle_world)
     = Inr (configured (respond []) (succeed (latin1_decode ''generated'')) None None [\<lambda>v. succeed ()]) \<and>
   fst (post_init \<lparr>celery_extension = None, sentry_extension = None\<rparr>
          (configured (respond []) (succeed (latin1_decode ''generated'')) None None []) idle_world)
     = Inr (configured (respond []) (succeed (latin1_decode ''generated'')) None None []) \<and>
   hooks (configured (respond []) (succeed (latin1_decode ''generated'')) None None [\<lambda>v. succeed ()])
     \<noteq> hooks (configured (respond []) (succeed (latin1_decode ''generated'')) None None [])"
  by (simp add: post_init_def configured_def)


section \<open>The default validator\<close>

lemma lower_hex_is_hex: "c \<in> set ''0123456789abcdef'' \<Longrightarrow> is_hex c"
  by (auto simp: is_hex_def hex_digit_def)

lemma lower_hex32_hex32: "lower_hex32 v \<Longrightarrow> hex32 v"
  unfolding lower_hex32_def hex32_def list_all_iff
  using lower_hex_is_hex by blast

lemma is_valid_uuid4_True_iff: "is_valid_uuid4 s = Inr True \<longleftrightarrow> (\<exists>u. UUID s (Some 4) = Inr u)"
proof (cases "UUID s (Some 4)")
  case (Inl e)
  then have "e = ValueError" by (rule UUID_raises_ValueError)
  with Inl show ?thesis by (simp add: is_valid_uuid4_def)
next
  case (Inr u)
  then show ?thesis by (simp add: is_valid_uuid4_def)
qed

lemma is_valid_uuid4_False_iff: "is_valid_uuid4 s = Inr False \<longleftrightarrow> UUID s (Some 4) = Inl ValueError"
proof (cases "UUID s (Some 4)")
  case (Inl e)
  then have "e = ValueError" by (rule UUID_raises_ValueError)
  with Inl show ?thesis by (simp add: is_valid_uuid4_def)
next
  case (Inr u)
  then show ?thesis by (simp add: is_valid_uuid4_def)
qed

lemma UUID_version_4: "UUID s (Some 4) = Inr u \<Longrightarrow> uuid_version u = Some 4"
  by (auto simp: UUID_def Let_def uuid_version_set split: if_splits option.splits)

lemma uuid_examples:
  "is_valid_uuid4 ''12345678-1234-1678-9234-567812345678'' = Inr True"
  "is_valid_uuid4 ''0123456789ABCDEF0123456789ABCDEF'' = Inr True"
  "is_valid_uuid4 ''{12345678-1234-1678-9234-567812345678}'' = Inr True"
  "is_valid_uuid4 ''urn:uuid:12345678-1234-1678-9234-567812345678'' = Inr True"
  "is_valid_uuid4 ''12345678123416789234567812345678'' = Inr True"
  by code_simp+

lemma uuid_v1_example:
  "map_sum id uuid_version (UUID ''12345678123416789234567812345678'' None) = Inr (Some 1)"
  by code_simp

lemma uuid_upper_example:
  "UUID ''0123456789ABCDEF0123456789ABCDEF'' (Some 4) = Inr 1512366075203566475363147076673981935"
  by code_simp

text \<open>
  Claim C10. \<open>is_valid_uuid4\<close> is true exactly when \<open>UUID(s, version=4)\<close> returns, and
  false exactly when it raises \<open>ValueError\<close>. The version is not checked: whatever the
  string says, the UUID built has version 4. So every string of 32 hexadecimal digits is
  accepted, of either case and of any version (here one of version 1), and so are the
  hyphenated, the braced and the URN forms: more than the 32 lower-case digits.
\<close>

theorem default_validator_accepts_what_parses:
  "(is_valid_uuid4 s = Inr True \<longleftrightarrow> (\<exists>u. UUID s (Some 4) = Inr u)) \<and>
   (is_valid_uuid4 s = Inr False \<longleftrightarrow> UUID s (Some 4) = Inl ValueError) \<and>
   (UUID s (Some 4) = Inr u \<longrightarrow> uuid_version u = Some 4) \<and>
   (hex32 s \<longrightarrow> is_valid_uuid4 s = Inr True) \<and>
   (lower_hex32 s \<longrightarrow> is_valid_uuid4 s = Inr True) \<and>
   \<not> lower_hex32 ''0123456789ABCDEF0123456789ABCDEF'' \<and>
   is_valid_uuid4 ''0123456789ABCDEF0123456789ABCDEF'' = Inr True \<and>
   is_valid_uuid4 ''12345678-1234-1678-9234-567812345678'' = Inr True \<and>
   is_valid_uuid4 ''{12345678-1234-1678-9234-567812345678}'' = Inr True \<and>
   is_valid_uuid4 ''urn:uuid:12345678-1234-1678-9234-567812345678'' = Inr True \<and>
   map_sum id uuid_version (UUID ''12345678123416789234567812345678'' None) = Inr (Some 1) \<and>
   is_valid_uuid4 ''12345678123416789234567812345678'' = Inr True"
proof -
  have "\<not> lower_hex32 ''0123456789ABCDEF0123456789ABCDEF''"
    by (simp add: lower_hex32_def)
  moreover have "UUID s (Some 4) = Inr u \<longrightarrow> uuid_version u = Some 4"
    using UUID_version_4 by blast
  moreover have "hex32 s \<longrightarrow> is_valid_uuid4 s = Inr True"
    using is_valid_uuid4_hex32 by blast
  moreover have "lower_hex32 s \<longrightarrow> is_valid_uuid4 s = Inr True"
    using is_valid_uuid4_hex32 lower_hex32_hex32 by blast
  ultimately show ?thesis
    using is_valid_uuid4_True_iff [of s] is_valid_uuid4_False_iff [of s] uuid_examples uuid_v1_example
    by blast
qed

theorem default_validator_accepts_what_parses_witness:
  "hex32 ''0123456789ABCDEF0123456789ABCDEF'' \<and>
   UUID ''0123456789ABCDEF0123456789ABCDEF'' (Some 4) = Inr 1512366075203566475363147076673981935 \<and>
   is_valid_uuid4 ''0123456789ABCDEF0123456789ABCDEF'' = Inr True \<and>
   uuid_version 1512366075203566475363147076673981935 = Some 4 \<and>
   lower_hex32 ''0123456789abcdef0123456789abcdef'' \<and>
   is_valid_uuid4 ''0123456789abcdef0123456789abcdef'' = Inr True \<and>
   is_valid_uuid4 ''bad-uuid'' = Inr False \<and>
   UUID ''bad-uuid'' (Some 4) = Inl ValueError"
proof -
  let ?s = "''0123456789ABCDEF0123456789ABCDEF''"
  let ?l = "''0123456789abcdef0123456789abcdef''"
  let ?u = "1512366075203566475363147076673981935 :: int"
  have h: "hex32 ?s" by (simp add: hex32_def is_hex_def hex_digit_def)
  have lh: "lower_hex32 ?l" by (simp add: lower_hex32_def)
  note t = default_validator_accepts_what_parses [where s = ?s and u = ?u]
  have v: "uuid_version ?u = Some 4"
    by (rule t [THEN conjunct2, THEN conjunct2, THEN conjunct1, rule_format, OF uuid_upper_example])
  have a: "is_valid_uuid4 ?s = Inr True"
    by (rule t [THEN conjunct2, THEN conjunct2, THEN conjunct2, THEN conjunct1, rule_format, OF h])
  have b: "is_valid_uuid4 ?l = Inr True"
    by (rule default_validator_accepts_what_parses [where s = ?l and u = ?u, THEN conjunct2,
          THEN conjunct2, THEN conjunct2, THEN conjunct2, THEN conjunct1, rule_format, OF lh])
  have c: "UUID ''bad-uuid'' (Some 4) = Inl ValueError"
    by (rule default_validator_accepts_what_parses [where s = "''bad-uuid''" and u = ?u,
          THEN conjunct2, THEN conjunct1, THEN iffD1, OF bad_uuid_rejected])
  show ?thesis using h uuid_upper_example a v lh b bad_uuid_rejected c by blast
qed

section \<open>A whole HTTP request\<close>

text \<open>
  Claim C4. With the default validator and the default transformer, an inbound header
  value of 32 lower-case hexadecimal digits is accepted as it is: when the hooks return,
  the inner application is called on the unchanged scope with the value (decoded) in the
  context, and a response-start message with a header list sent while the context holds
  that value leaves with the header \<open>header_name\<close> carrying exactly the inbound bytes. For
  an inner application that sends one such response-start message, the whole call is that
  one send.
\<close>

theorem default_configuration_echoes_valid_id:
  assumes http: "stype sc = ''http''"
    and hv: "headers_get (sheaders sc) (header_name self) = Some v"
    and hex: "lower_hex32 v"
    and vd: "validator self = Some default_validator"
    and tr: "transformer self = Some default_transformer"
    and hk: "run_hooks (hooks self) (latin1_decode v) (w\<lparr>correlation_id := Some (latin1_decode v)\<rparr>)
               = (Inr (), w3)"
  shows "call self sc receive send w =
           app self sc receive (handle_outgoing_request self send) w3 \<and>
         (mtype m = ''http.response.start'' \<and> mheaders m = Some hs \<and>
          correlation_id w' = Some (latin1_decode v) \<longrightarrow>
            handle_outgoing_request self send m w' =
              send (m\<lparr>mheaders := Some (hs @ [(str_lower (header_name self), v)])\<rparr>) w') \<and>
         (mtype m = ''http.response.start'' \<and> mheaders m = Some hs \<and> app self = respond [m] \<and>
          correlation_id w3 = Some (latin1_decode v) \<longrightarrow>
            call self sc receive send w =
              send (m\<lparr>mheaders := Some (hs @ [(str_lower (header_name self), v)])\<rparr>) w3)"
proof -
  have ne: "v \<noteq> []" using hex by (rule lower_hex32_nonempty)
  have ok: "is_valid_uuid4 v = Inr True"
    using hex by (intro is_valid_uuid4_hex32 lower_hex32_hex32)
  have r: "resolve_id self (headers_get (sheaders sc) (header_name self)) w = (Inr (latin1_decode v), w)"
    by (simp add: hv resolve_id_def ne vd default_validator_def ok and_then_def succeed_def)
  have t: "transform_id self (latin1_decode v) w = (Inr (latin1_decode v), w)"
    by (simp add: transform_id_def tr default_transformer_def succeed_def)
  have u: "update_request_headers self (headers_get (sheaders sc) (header_name self))
      (latin1_decode v) sc = Inr sc"
    by (simp add: update_request_headers_def hv)
  have c: "call self sc receive send w =
      app self sc receive (handle_outgoing_request self send) w3"
    unfolding call_http_steps [OF http r t] finish_ok [OF u] by (simp add: and_then_def hk)
  have o: "handle_outgoing_request self send m w' =
      send (m\<lparr>mheaders := Some (hs @ [(str_lower (header_name self), v)])\<rparr>) w'"
    if "mtype m = ''http.response.start''" and "mheaders m = Some hs"
      and "correlation_id w' = Some (latin1_decode v)" for w'
    using that ne by (simp add: handle_outgoing_request_def headers_append_def)
  show ?thesis
    using c o by (auto simp: respond_single)
qed

theorem default_configuration_echoes_valid_id_witness:
  "call (configured (respond [response_start [(''content-type'', ''application/json'')], response_body])
           (failing ''generator'') (Some default_validator) (Some default_transformer) [])
        (http_scope [(''x-request-id'', ''0123456789abcdef0123456789abcdef'')])
        no_receive record_send idle_world
   = (Inr (), idle_world\<lparr>correlation_id := Some (latin1_decode ''0123456789abcdef0123456789abcdef''),
        env := [response_start [(''content-type'', ''application/json''),
                                (''x-request-id'', ''0123456789abcdef0123456789abcdef'')],
                response_body]\<rparr>) \<and>
   call (configured (respond [response_start []])
           (failing ''generator'') (Some default_validator) (Some default_transformer) [])
        (http_scope [(''x-request-id'', ''0123456789abcdef0123456789abcdef'')])
        no_receive record_send idle_world
   = (Inr (), idle_world\<lparr>correlation_id := Some (latin1_decode ''0123456789abcdef0123456789abcdef''),
        env := [response_start [(''x-request-id'', ''0123456789abcdef0123456789abcdef'')]]\<rparr>)"
proof -
  let ?v = "''0123456789abcdef0123456789abcdef''"
  let ?id = "latin1_decode ?v"
  let ?sc = "http_scope [(''x-request-id'', ?v)]"
  let ?hs = "[(''content-type'', ''application/json'')]"
  let ?m = "response_start ?hs"
  let ?two = "configured (respond [?m, response_body])
           (failing ''generator'') (Some default_validator) (Some default_transformer) []"
  let ?one = "configured (respond [response_start []])
           (failing ''generator'') (Some default_validator) (Some default_transformer) []"
  let ?w3 = "idle_world\<lparr>correlation_id := Some ?id\<rparr>"
  have http: "stype ?sc = ''http''" by (simp add: http_scope_def)
  have hex: "lower_hex32 ?v" by (simp add: lower_hex32_def)
  have hv2: "headers_get (sheaders ?sc) (header_name ?two) = Some ?v"
    by (simp add: http_scope_def configured_def headers_get_def)
  have hv1: "headers_get (sheaders ?sc) (header_name ?one) = Some ?v"
    by (simp add: http_scope_def configured_def headers_get_def)
  have vd2: "validator ?two = Some default_validator" and tr2: "transformer ?two = Some default_transformer"
    and hk2: "run_hooks (hooks ?two) ?id (idle_world\<lparr>correlation_id := Some ?id\<rparr>) = (Inr (), ?w3)"
    by (simp_all add: configured_def succeed_def)
  have vd1: "validator ?one = Some default_validator" and tr1: "transformer ?one = Some default_transformer"
    and hk1: "run_hooks (hooks ?one) ?id (idle_world\<lparr>correlation_id := Some ?id\<rparr>) = (Inr (), ?w3)"
    by (simp_all add: configured_def succeed_def)
  note t2 = default_configuration_echoes_valid_id [where m = ?m and hs = ?hs and w' = ?w3
      and receive = no_receive and send = record_send, OF http hv2 hex vd2 tr2 hk2]
  note t1 = default_configuration_echoes_valid_id [where m = "response_start []" and hs = "[]"
      and w' = ?w3 and receive = no_receive and send = record_send, OF http hv1 hex vd1 tr1 hk1]
  have a1: "mtype (response_start []) = ''http.response.start'' \<and>
      mheaders (response_start []) = Some [] \<and>
      app ?one = respond [response_start []] \<and> correlation_id ?w3 = Some ?id"
    by (simp add: response_start_def configured_def)
  have n1: "str_lower (header_name ?one) = ''x-request-id''" by (simp add: configured_def)
  have n2: "str_lower (header_name ?two) = ''x-request-id''" by (simp add: configured_def)
  have one: "call ?one ?sc no_receive record_send idle_world =
      record_send (response_start []\<lparr>mheaders := Some ([] @ [(''x-request-id'', ?v)])\<rparr>) ?w3"
    using t1 [THEN conjunct2, THEN conjunct2, rule_format, OF a1] unfolding n1 .
  have a2: "mtype ?m = ''http.response.start'' \<and> mheaders ?m = Some ?hs \<and>
      correlation_id ?w3 = Some ?id"
    by (simp add: response_start_def)
  have out: "handle_outgoing_request ?two record_send ?m ?w3 =
      record_send (?m\<lparr>mheaders := Some (?hs @ [(''x-request-id'', ?v)])\<rparr>) ?w3"
    using t2 [THEN conjunct2, THEN conjunct1, rule_format, OF a2] unfolding n2 .
  have two: "call ?two ?sc no_receive record_send idle_world =
      app ?two ?sc no_receive (handle_outgoing_request ?two record_send) ?w3"
    using t2 [THEN conjunct1] .
  have app2: "app ?two = respond [?m, response_body]" by (simp add: configured_def)
  have body: "handle_outgoing_request ?two record_send response_body w = record_send response_body w" for w
    by (simp add: handle_outgoing_request_def response_body_def split: option.splits)
  have run: "respond [?m, response_body] ?sc no_receive (handle_outgoing_request ?two record_send) ?w3
      = and_then (record_send (?m\<lparr>mheaders := Some (?hs @ [(''x-request-id'', ?v)])\<rparr>))
          (\<lambda>_. record_send response_body) ?w3"
    by (simp add: and_then_def out body split: prod.splits sum.splits)
  show ?thesis
    unfolding one two app2 run
    by (simp add: and_then_def record_send_def response_start_def idle_world_def)
qed


text \<open>
  Claim C6, as the code has it. Once the ID is resolved and transformed, and the final ID
  differs from the inbound header value (an absent header differs from every ID) while
  \<open>update_request_header\<close> is true, line 75 writes the header: when the final ID can be
  encoded in latin-1, the scope handed to the inner application has its header list
  rewritten, holding one entry of the configured name, with the encoded final ID, at the
  place of the first such entry (at the end when there was none), the entries of other names
  being the same, in the same order; when the final ID cannot be encoded in latin-1, the
  write raises \<open>UnicodeEncodeError\<close>, which is the result of the call whatever the inner
  application is: nothing is overwritten, the context is not set, no hook runs and the
  inner application is not invoked. When the final ID equals the inbound value or
  \<open>update_request_header\<close> is false, the inner application is invoked on the scope that
  came in.
\<close>

theorem request_header_overwritten_iff:
  assumes http: "stype sc = ''http''"
    and hv: "hv = headers_get (sheaders sc) (header_name self)"
    and r: "resolve_id self hv w = (Inr r, w1)"
    and t: "transform_id self r w1 = (Inr f, w2)"
  shows
   "(Some f \<noteq> map_option latin1_decode hv \<and> update_request_header self \<and> latin1_encode f = Inr b \<longrightarrow>
       call self sc receive send w =
         and_then (run_hooks (hooks self) f)
           (\<lambda>_. app self (sc\<lparr>sheaders := set_first (str_lower (header_name self)) b (sheaders sc)\<rparr>)
                  receive (handle_outgoing_request self send))
           (w2\<lparr>correlation_id := Some f\<rparr>) \<and>
       filter (\<lambda>h. fst h = str_lower (header_name self))
           (set_first (str_lower (header_name self)) b (sheaders sc))
         = [(str_lower (header_name self), b)] \<and>
       filter (\<lambda>h. fst h \<noteq> str_lower (header_name self))
           (set_first (str_lower (header_name self)) b (sheaders sc))
         = filter (\<lambda>h. fst h \<noteq> str_lower (header_name self)) (sheaders sc) \<and>
       takeWhile (\<lambda>h. fst h \<noteq> str_lower (header_name self))
           (set_first (str_lower (header_name self)) b (sheaders sc))
         = takeWhile (\<lambda>h. fst h \<noteq> str_lower (header_name self)) (sheaders sc) \<and>
       headers_get (set_first (str_lower (header_name self)) b (sheaders sc)) (header_name self)
         = Some b \<and>
       set_first (str_lower (header_name self)) b (sheaders sc) \<noteq> sheaders sc) \<and>
    (Some f \<noteq> map_option latin1_decode hv \<and> update_request_header self \<and> latin1_encode f = Inl e \<longrightarrow>
       call (self\<lparr>app := a\<rparr>) sc receive send w = (Inl UnicodeEncodeError, w2)) \<and>
    (\<not> (Some f \<noteq> map_option latin1_decode hv \<and> update_request_header self) \<longrightarrow>
       call self sc receive send w =
         and_then (run_hooks (hooks self) f)
           (\<lambda>_. app self sc receive (handle_outgoing_request self send))
           (w2\<lparr>correlation_id := Some f\<rparr>))"
proof (intro conjI impI)
  let ?k = "str_lower (header_name self)"
  note steps = call_http_steps [OF http r [unfolded hv] t, folded hv]
  {
    assume a: "Some f \<noteq> map_option latin1_decode hv \<and> update_request_header self \<and>
        latin1_encode f = Inr b"
    then have u: "update_request_headers self hv f sc
        = Inr (sc\<lparr>sheaders := set_first ?k b (sheaders sc)\<rparr>)"
      by (simp add: update_request_headers_def headers_setitem_def)
    show "call self sc receive send w =
         and_then (run_hooks (hooks self) f)
           (\<lambda>_. app self (sc\<lparr>sheaders := set_first ?k b (sheaders sc)\<rparr>)
                  receive (handle_outgoing_request self send))
           (w2\<lparr>correlation_id := Some f\<rparr>)"
      unfolding steps finish_ok [OF u] ..
    show "filter (\<lambda>h. fst h = ?k) (set_first ?k b (sheaders sc)) = [(?k, b)]"
      by (rule set_first_same)
    show "filter (\<lambda>h. fst h \<noteq> ?k) (set_first ?k b (sheaders sc))
        = filter (\<lambda>h. fst h \<noteq> ?k) (sheaders sc)"
      by (rule set_first_other)
    show "takeWhile (\<lambda>h. fst h \<noteq> ?k) (set_first ?k b (sheaders sc))
        = takeWhile (\<lambda>h. fst h \<noteq> ?k) (sheaders sc)"
      by (rule set_first_before)
    show "headers_get (set_first ?k b (sheaders sc)) (header_name self) = Some b"
      by (rule headers_get_set_first)
    from a have "f = latin1_decode b" using latin1_encode_Inr by blast
    with a have "headers_get (sheaders sc) (header_name self) \<noteq> Some b"
      unfolding hv by auto
    then show "set_first ?k b (sheaders sc) \<noteq> sheaders sc"
      by (rule set_first_changes)
  }
  {
    assume a: "Some f \<noteq> map_option latin1_decode hv \<and> update_request_header self \<and>
        latin1_encode f = Inl e"
    then have "e = UnicodeEncodeError" using latin1_encode_Inl by blast
    with a have u: "update_request_headers (self\<lparr>app := a\<rparr>) hv f sc = Inl UnicodeEncodeError"
      by (simp add: update_request_headers_def headers_setitem_def)
    have "call (self\<lparr>app := a\<rparr>) sc receive send w
        = finish (self\<lparr>app := a\<rparr>) sc hv receive send f w2"
      using call_http_steps [of sc "self\<lparr>app := a\<rparr>" w r w1 f w2 receive send] http r t hv
      by simp
    then show "call (self\<lparr>app := a\<rparr>) sc receive send w = (Inl UnicodeEncodeError, w2)"
      by (simp add: finish_raises [OF u])
  }
  {
    assume a: "\<not> (Some f \<noteq> map_option latin1_decode hv \<and> update_request_header self)"
    then have u: "update_request_headers self hv f sc = Inr sc"
      by (auto simp: update_request_headers_def)
    show "call self sc receive send w =
         and_then (run_hooks (hooks self) f)
           (\<lambda>_. app self sc receive (handle_outgoing_request self send))
           (w2\<lparr>correlation_id := Some f\<rparr>)"
      unfolding steps finish_ok [OF u] ..
  }
qed

text \<open>
  The three cases on whole requests: an inbound value the default validator rejects is
  replaced, in the headers the inner application reads, by the generated ID (the second
  entry of the same name is gone); with \<open>update_request_header\<close> false, or a final ID equal
  to the inbound value, the inner application reads the headers as they came; a final ID
  with a euro sign raises before the inner application is reached.
\<close>

theorem request_header_overwritten_iff_witness:
  "call (configured echo_request_headers (succeed (latin1_decode ''generated''))
           (Some default_validator) (Some default_transformer) [])
        (http_scope [(''host'', ''test''), (''x-request-id'', ''bad-uuid''), (''accept'', ''*/*''),
                     (''x-request-id'', ''again'')])
        no_receive record_send idle_world
   = (Inr (), \<lparr>log_records = [\<lparr>levelname = WARNING, msg = FAILED_VALIDATION_MESSAGE, args = [''bad-uuid'']\<rparr>],
               correlation_id = Some (latin1_decode ''generated''),
               env = [\<lparr>mtype = ''http.response.body'',
                       mheaders = Some [(''host'', ''test''), (''x-request-id'', ''generated''),
                                        (''accept'', ''*/*'')],
                       mother = []\<rparr>]\<rparr>) \<and>
   set_first ''x-request-id'' ''generated''
       [(''host'', ''test''), (''x-request-id'', ''bad-uuid''), (''accept'', ''*/*''),
        (''x-request-id'', ''again'')]
     \<noteq> [(''host'', ''test''), (''x-request-id'', ''bad-uuid''), (''accept'', ''*/*''),
         (''x-request-id'', ''again'')] \<and>
   call ((configured echo_request_headers (succeed (latin1_decode ''generated''))
           (Some default_validator) (Some default_transformer) [])\<lparr>update_request_header := False\<rparr>)
        (http_scope [(''host'', ''test''), (''x-request-id'', ''bad-uuid''), (''accept'', ''*/*''),
                     (''x-request-id'', ''again'')])
        no_receive record_send idle_world
   = (Inr (), \<lparr>log_records = [\<lparr>levelname = WARNING, msg = FAILED_VALIDATION_MESSAGE, args = [''bad-uuid'']\<rparr>],
               correlation_id = Some (latin1_decode ''generated''),
               env = [\<lparr>mtype = ''http.response.body'',
                       mheaders = Some [(''host'', ''test''), (''x-request-id'', ''bad-uuid''),
                                        (''accept'', ''*/*''), (''x-request-id'', ''again'')],
                       mother = []\<rparr>]\<rparr>) \<and>
   call (configured echo_request_headers (succeed (latin1_decode ''generated'')) None None [])
        (http_scope [(''host'', ''test''), (''x-request-id'', ''bad-uuid'')])
        no_receive record_send idle_world
   = (Inr (), \<lparr>log_records = [], correlation_id = Some (latin1_decode ''bad-uuid''),
               env = [\<lparr>mtype = ''http.response.body'',
                       mheaders = Some [(''host'', ''test''), (''x-request-id'', ''bad-uuid'')],
                       mother = []\<rparr>]\<rparr>) \<and>
   call ((configured echo_request_headers (succeed (latin1_decode ''generated'')) None
            (Some with_euro) [])\<lparr>app := respond [response_start []]\<rparr>)
        (http_scope [(''host'', ''test''), (''x-request-id'', ''bad-uuid'')])
        no_receive record_send idle_world
   = (Inl UnicodeEncodeError, idle_world)"
proof -
  let ?hs = "[(''host'', ''test''), (''x-request-id'', ''bad-uuid''), (''accept'', ''*/*''),
             (''x-request-id'', ''again'')]"
  let ?hs2 = "[(''host'', ''test''), (''x-request-id'', ''bad-uuid'')]"
  let ?sc = "http_scope ?hs"
  let ?sc2 = "http_scope ?hs2"
  let ?g = "latin1_decode ''generated''"
  let ?bad = "latin1_decode ''bad-uuid''"
  let ?on = "configured echo_request_headers (succeed ?g) (Some default_validator)
           (Some default_transformer) []"
  let ?off = "?on\<lparr>update_request_header := False\<rparr>"
  let ?plain = "configured echo_request_headers (succeed ?g) None None []"
  let ?euro = "configured echo_request_headers (succeed ?g) None (Some with_euro) []"
  let ?w1 = "idle_world\<lparr>log_records :=
      [\<lparr>levelname = WARNING, msg = FAILED_VALIDATION_MESSAGE, args = [''bad-uuid'']\<rparr>]\<rparr>"
  have http: "stype ?sc = ''http''" "stype ?sc2 = ''http''" by (simp_all add: http_scope_def)
  have g_on: "Some ''bad-uuid'' = headers_get (sheaders ?sc) (header_name ?on)"
    and g_off: "Some ''bad-uuid'' = headers_get (sheaders ?sc) (header_name ?off)"
    and g_plain: "Some ''bad-uuid'' = headers_get (sheaders ?sc2) (header_name ?plain)"
    and g_euro: "Some ''bad-uuid'' = headers_get (sheaders ?sc2) (header_name ?euro)"
    by (simp_all add: http_scope_def configured_def headers_get_def)
  have r_on: "resolve_id ?on (Some ''bad-uuid'') idle_world = (Inr ?g, ?w1)"
    by (simp add: configured_def resolve_id_def default_validator_def
        bad_uuid_rejected and_then_def succeed_def logger_warning_def idle_world_def)
  have r_off: "resolve_id ?off (Some ''bad-uuid'') idle_world = (Inr ?g, ?w1)"
    by (simp add: configured_def resolve_id_def default_validator_def
        bad_uuid_rejected and_then_def succeed_def logger_warning_def idle_world_def)
  have r_plain: "resolve_id ?plain (Some ''bad-uuid'') idle_world = (Inr ?bad, idle_world)"
    by (simp add: configured_def resolve_id_def succeed_def)
  have r_euro: "resolve_id ?euro (Some ''bad-uuid'') idle_world = (Inr ?bad, idle_world)"
    by (simp add: configured_def resolve_id_def succeed_def)
  have t_on: "transform_id ?on ?g ?w1 = (Inr ?g, ?w1)"
    by (simp add: configured_def transform_id_def default_transformer_def succeed_def)
  have t_off: "transform_id ?off ?g ?w1 = (Inr ?g, ?w1)"
    by (simp add: configured_def transform_id_def default_transformer_def succeed_def)
  have t_plain: "transform_id ?plain ?bad idle_world = (Inr ?bad, idle_world)"
    by (simp add: configured_def transform_id_def succeed_def)
  have t_euro: "transform_id ?euro ?bad idle_world = (Inr (?bad @ [8364]), idle_world)"
    by (simp add: configured_def transform_id_def with_euro_def succeed_def)
  have a_on: "Some ?g \<noteq> map_option latin1_decode (Some ''bad-uuid'') \<and> update_request_header ?on \<and>
      latin1_encode ?g = Inr ''generated''"
    by (simp add: configured_def)
  have a_off: "\<not> (Some ?g \<noteq> map_option latin1_decode (Some ''bad-uuid'') \<and> update_request_header ?off)"
    by (simp add: configured_def)
  have a_plain: "\<not> (Some ?bad \<noteq> map_option latin1_decode (Some ''bad-uuid'') \<and>
      update_request_header ?plain)"
    by simp
  have a_euro: "Some (?bad @ [8364]) \<noteq> map_option latin1_decode (Some ''bad-uuid'') \<and>
      update_request_header ?euro \<and> latin1_encode (?bad @ [8364]) = Inl UnicodeEncodeError"
    by (simp add: configured_def euro_not_latin1)
  note on = request_header_overwritten_iff [where receive = no_receive and send = record_send
      and a = echo_request_headers and e = KeyError,
      OF http(1) g_on r_on t_on, THEN conjunct1, rule_format, OF a_on]
  note off = request_header_overwritten_iff [where receive = no_receive and send = record_send
      and a = echo_request_headers and e = KeyError and b = "[]",
      OF http(1) g_off r_off t_off, THEN conjunct2, THEN conjunct2, rule_format, OF a_off]
  note plain = request_header_overwritten_iff [where receive = no_receive and send = record_send
      and a = echo_request_headers and e = KeyError and b = "[]",
      OF http(2) g_plain r_plain t_plain, THEN conjunct2, THEN conjunct2, rule_format, OF a_plain]
  have c_euro: "call (?euro\<lparr>app := respond [response_start []]\<rparr>) ?sc2 no_receive record_send idle_world
      = (Inl UnicodeEncodeError, idle_world)"
    by (rule request_header_overwritten_iff [where b = "[]",
          OF http(2) g_euro r_euro t_euro, THEN conjunct2, THEN conjunct1, rule_format, OF a_euro])
  have n: "str_lower (header_name ?on) = ''x-request-id''" by (simp add: configured_def)
  have s: "set_first ''x-request-id'' ''generated'' ?hs
      = [(''host'', ''test''), (''x-request-id'', ''generated''), (''accept'', ''*/*'')]"
    by simp
  have ne: "set_first ''x-request-id'' ''generated'' ?hs \<noteq> ?hs"
    using on [THEN conjunct2, THEN conjunct2, THEN conjunct2, THEN conjunct2, THEN conjunct2]
    unfolding n by (simp add: http_scope_def)
  have o: "handle_outgoing_request x record_send
      \<lparr>mtype = ''http.response.body'', mheaders = hs, mother = []\<rparr> w
      = record_send \<lparr>mtype = ''http.response.body'', mheaders = hs, mother = []\<rparr> w" for x hs w
    by (simp add: handle_outgoing_request_def split: option.splits)
  have c_on: "call ?on ?sc no_receive record_send idle_world
      = (Inr (), ?w1\<lparr>correlation_id := Some ?g,
            env := [\<lparr>mtype = ''http.response.body'',
               mheaders = Some [(''host'', ''test''), (''x-request-id'', ''generated''), (''accept'', ''*/*'')],
               mother = []\<rparr>]\<rparr>)"
    unfolding on [THEN conjunct1] n
    by (simp add: configured_def http_scope_def succeed_def echo_request_headers_def o
        record_send_def idle_world_def)
  have c_off: "call ?off ?sc no_receive record_send idle_world
      = (Inr (), ?w1\<lparr>correlation_id := Some ?g,
            env := [\<lparr>mtype = ''http.response.body'', mheaders = Some ?hs, mother = []\<rparr>]\<rparr>)"
    unfolding off
    by (simp add: configured_def http_scope_def succeed_def echo_request_headers_def o
        record_send_def idle_world_def)
  have c_plain: "call ?plain ?sc2 no_receive record_send idle_world
      = (Inr (), idle_world\<lparr>correlation_id := Some ?bad,
            env := [\<lparr>mtype = ''http.response.body'', mheaders = Some ?hs2, mother = []\<rparr>]\<rparr>)"
    unfolding plain
    by (simp add: configured_def http_scope_def succeed_def echo_request_headers_def o
        record_send_def idle_world_def)
  show ?thesis
    unfolding c_on c_off c_plain c_euro using ne by (simp add: idle_world_def)
qed

text \<open>
  Claim C6 as worded fails on the request with header \<open>x-request-id: abc\<close>, no validator
  and a transformer that appends a euro sign: the final ID differs from the inbound value
  and \<open>update_request_header\<close> is true, yet no header is overwritten and the inner
  application is never invoked, because the call raises \<open>UnicodeEncodeError\<close>.
\<close>

theorem request_header_overwritten_iff_counterexample:
  "call (configured (respond [response_start []]) (failing ''generator'') None (Some with_euro) [])
     (http_scope [(''x-request-id'', ''abc'')]) no_receive record_send idle_world
   = (Inl UnicodeEncodeError, idle_world) \<and>
   latin1_decode ''abc'' @ [8364] \<noteq> latin1_decode ''abc'' \<and>
   update_request_header
     (configured (respond [response_start []]) (failing ''generator'') None (Some with_euro) [])"
proof -
  let ?cfg = "configured (respond [response_start []]) (failing ''generator'') None (Some with_euro) []"
  let ?sc = "http_scope [(''x-request-id'', ''abc'')]"
  let ?f = "latin1_decode ''abc'' @ [8364]"
  have http: "stype ?sc = ''http''" by (simp add: http_scope_def)
  have g: "headers_get (sheaders ?sc) (header_name ?cfg) = Some ''abc''"
    by (simp add: http_scope_def configured_def headers_get_def)
  have r: "resolve_id ?cfg (headers_get (sheaders ?sc) (header_name ?cfg)) idle_world
      = (Inr (latin1_decode ''abc''), idle_world)"
    unfolding g by (simp add: resolve_id_def configured_def succeed_def)
  have t: "transform_id ?cfg (latin1_decode ''abc'') idle_world = (Inr ?f, idle_world)"
    by (simp add: transform_id_def configured_def with_euro_def succeed_def)
  have u: "update_request_headers ?cfg (headers_get (sheaders ?sc) (header_name ?cfg)) ?f ?sc
      = Inl UnicodeEncodeError"
    unfolding g
    by (simp add: update_request_headers_def headers_setitem_def euro_not_latin1 configured_def)
  have "call ?cfg ?sc no_receive record_send idle_world = (Inl UnicodeEncodeError, idle_world)"
    unfolding call_http_steps [OF http r t] by (rule finish_raises [OF u])
  then show ?thesis by (simp add: configured_def)
qed


text \<open>
  Claim C5. With a transformer configured, the ID with which lines 73 to 90 run (compared
  with the inbound header, written to it, published in the context, given to the hooks and
  echoed) is the transformer applied to the resolved ID, whichever rule resolved it; on the
  reuse path, where the validator accepted the inbound value, it is the transformer applied
  to that value. When the header update returns, the call is the hooks on that ID followed
  by the inner application, in a world whose context holds that ID. With the transformer
  that doubles its argument and the default validator, an inbound ID \<open>cid\<close> of 32 lower-case
  hexadecimal digits gives the outbound header value \<open>cid @ cid\<close> on a response-start
  message that carries a header list.
\<close>

theorem transformer_applied_on_every_path:
  assumes http: "stype sc = ''http''" and tr: "transformer self = Some t"
  shows
   "(resolve_id self (headers_get (sheaders sc) (header_name self)) w = (Inr r, w1) \<and>
     t r w1 = (Inr f, w2) \<longrightarrow>
       call self sc receive send w =
         finish self sc (headers_get (sheaders sc) (header_name self)) receive send f w2 \<and>
       (update_request_headers self (headers_get (sheaders sc) (header_name self)) f sc = Inr sc' \<longrightarrow>
          call self sc receive send w =
            and_then (run_hooks (hooks self) f)
              (\<lambda>_. app self sc' receive (handle_outgoing_request self send))
              (w2\<lparr>correlation_id := Some f\<rparr>))) \<and>
    (headers_get (sheaders sc) (header_name self) = Some v \<and> v \<noteq> [] \<and>
     validator self = Some vd \<and> vd v w = (Inr True, w1) \<and>
     t (latin1_decode v) w1 = (Inr f, w2) \<longrightarrow>
       call self sc receive send w = finish self sc (Some v) receive send f w2 \<and>
       (update_request_headers self (Some v) f sc = Inr sc' \<longrightarrow>
          call self sc receive send w =
            and_then (run_hooks (hooks self) f)
              (\<lambda>_. app self sc' receive (handle_outgoing_request self send))
              (w2\<lparr>correlation_id := Some f\<rparr>))) \<and>
    (headers_get (sheaders sc) (header_name self) = Some cid \<and> lower_hex32 cid \<and>
     validator self = Some default_validator \<and> t = doubling \<and> hooks self = [] \<and>
     app self = respond [m] \<and> mtype m = ''http.response.start'' \<and> mheaders m = Some hs \<longrightarrow>
       call self sc receive send w =
         send (m\<lparr>mheaders := Some (hs @ [(str_lower (header_name self), cid @ cid)])\<rparr>)
           (w\<lparr>correlation_id := Some (latin1_decode (cid @ cid))\<rparr>))"
proof (intro conjI impI)
  let ?hv = "headers_get (sheaders sc) (header_name self)"
  {
    assume a: "resolve_id self ?hv w = (Inr r, w1) \<and> t r w1 = (Inr f, w2)"
    then have "transform_id self r w1 = (Inr f, w2)" by (simp add: transform_id_def tr)
    with a show c: "call self sc receive send w = finish self sc ?hv receive send f w2"
      using call_http_steps [OF http] by blast
    assume u: "update_request_headers self ?hv f sc = Inr sc'"
    show "call self sc receive send w =
            and_then (run_hooks (hooks self) f)
              (\<lambda>_. app self sc' receive (handle_outgoing_request self send))
              (w2\<lparr>correlation_id := Some f\<rparr>)"
      unfolding c finish_ok [OF u] ..
  }
  {
    assume a: "?hv = Some v \<and> v \<noteq> [] \<and> validator self = Some vd \<and> vd v w = (Inr True, w1) \<and>
       t (latin1_decode v) w1 = (Inr f, w2)"
    then have r: "resolve_id self ?hv w = (Inr (latin1_decode v), w1)"
      by (simp add: resolve_id_def and_then_def succeed_def)
    from a have "transform_id self (latin1_decode v) w1 = (Inr f, w2)"
      by (simp add: transform_id_def tr)
    from call_http_steps [OF http r this] a
    show c: "call self sc receive send w = finish self sc (Some v) receive send f w2"
      by simp
    assume u: "update_request_headers self (Some v) f sc = Inr sc'"
    show "call self sc receive send w =
            and_then (run_hooks (hooks self) f)
              (\<lambda>_. app self sc' receive (handle_outgoing_request self send))
              (w2\<lparr>correlation_id := Some f\<rparr>)"
      unfolding c finish_ok [OF u] ..
  }
  {
    assume a: "?hv = Some cid \<and> lower_hex32 cid \<and>
       validator self = Some default_validator \<and> t = doubling \<and> hooks self = [] \<and>
       app self = respond [m] \<and> mtype m = ''http.response.start'' \<and> mheaders m = Some hs"
    let ?f = "latin1_decode (cid @ cid)"
    from a have ne: "cid \<noteq> []" using lower_hex32_nonempty by blast
    have ok: "is_valid_uuid4 cid = Inr True"
      using a by (intro is_valid_uuid4_hex32 lower_hex32_hex32) blast
    have r: "resolve_id self ?hv w = (Inr (latin1_decode cid), w)"
      using a ne by (simp add: resolve_id_def default_validator_def ok and_then_def succeed_def)
    have t: "transform_id self (latin1_decode cid) w = (Inr ?f, w)"
      using a by (simp add: transform_id_def tr doubling_def succeed_def latin1_decode_append)
    obtain sc' where u: "update_request_headers self ?hv ?f sc = Inr sc'"
      by (cases "update_request_headers self ?hv ?f sc")
        (auto simp: update_request_headers_def headers_setitem_def split: if_splits)
    have o: "handle_outgoing_request self send m (w\<lparr>correlation_id := Some ?f\<rparr>) =
        send (m\<lparr>mheaders := Some (hs @ [(str_lower (header_name self), cid @ cid)])\<rparr>)
          (w\<lparr>correlation_id := Some ?f\<rparr>)"
      using a ne by (simp add: handle_outgoing_request_def headers_append_def)
    show "call self sc receive send w =
           send (m\<lparr>mheaders := Some (hs @ [(str_lower (header_name self), cid @ cid)])\<rparr>)
             (w\<lparr>correlation_id := Some ?f\<rparr>)"
      unfolding call_http_steps [OF http r t] finish_ok [OF u] using a o
      by (simp add: and_then_def succeed_def)
  }
qed

theorem transformer_applied_on_every_path_witness:
  "call (configured (respond [response_start []]) (succeed (latin1_decode ''generated''))
           (Some default_validator) (Some doubling) [])
        (http_scope [(''x-request-id'', ''0123456789abcdef0123456789abcdef'')])
        no_receive record_send idle_world
   = (Inr (), idle_world\<lparr>
        correlation_id := Some (latin1_decode
          ''0123456789abcdef0123456789abcdef0123456789abcdef0123456789abcdef''),
        env := [response_start [(''x-request-id'',
                  ''0123456789abcdef0123456789abcdef0123456789abcdef0123456789abcdef'')]]\<rparr>) \<and>
   call (configured (respond [response_start []]) (succeed (latin1_decode ''generated''))
           (Some default_validator) (Some doubling) [])
        (http_scope []) no_receive record_send idle_world
   = (Inr (), idle_world\<lparr>correlation_id := Some (latin1_decode ''generatedgenerated''),
        env := [response_start [(''x-request-id'', ''generatedgenerated'')]]\<rparr>) \<and>
   call (configured echo_request_headers (succeed (latin1_decode ''generated''))
           (Some default_validator) (Some doubling) [])
        (http_scope [(''x-request-id'', ''0123456789abcdef0123456789abcdef'')])
        no_receive record_send idle_world
   = (Inr (), idle_world\<lparr>
        correlation_id := Some (latin1_decode
          ''0123456789abcdef0123456789abcdef0123456789abcdef0123456789abcdef''),
        env := [\<lparr>mtype = ''http.response.body'',
                 mheaders = Some [(''x-request-id'',
                    ''0123456789abcdef0123456789abcdef0123456789abcdef0123456789abcdef'')],
                 mother = []\<rparr>]\<rparr>)"
proof -
  let ?cid = "''0123456789abcdef0123456789abcdef''"
  let ?id = "latin1_decode ?cid"
  let ?f = "latin1_decode (?cid @ ?cid)"
  let ?g = "latin1_decode ''generated''"
  let ?gg = "latin1_decode ''generatedgenerated''"
  let ?sc = "http_scope [(''x-request-id'', ?cid)]"
  let ?self = "configured (respond [response_start []]) (succeed ?g)
      (Some default_validator) (Some doubling) []"
  have http: "stype ?sc = ''http''" "stype (http_scope []) = ''http''" by (simp_all add: http_scope_def)
  have tr: "transformer ?self = Some doubling" by (simp add: configured_def)
  have n: "str_lower (header_name ?self) = ''x-request-id''" by (simp add: configured_def)
  have a: "headers_get (sheaders ?sc) (header_name ?self) = Some ?cid \<and> lower_hex32 ?cid \<and>
     validator ?self = Some default_validator \<and> doubling = doubling \<and> hooks ?self = [] \<and>
     app ?self = respond [response_start []] \<and> mtype (response_start []) = ''http.response.start'' \<and>
     mheaders (response_start []) = Some []"
    by (simp add: http_scope_def configured_def headers_get_def lower_hex32_def response_start_def)
  have one: "call ?self ?sc no_receive record_send idle_world =
      record_send (response_start []\<lparr>mheaders := Some ([] @ [(''x-request-id'', ?cid @ ?cid)])\<rparr>)
        (idle_world\<lparr>correlation_id := Some ?f\<rparr>)"
    using transformer_applied_on_every_path [where receive = no_receive and send = record_send
        and w = idle_world, OF http(1) tr, THEN conjunct2, THEN conjunct2, rule_format, OF a]
    unfolding n .
  have b: "resolve_id ?self (headers_get (sheaders (http_scope [])) (header_name ?self)) idle_world
      = (Inr ?g, idle_world) \<and>
      doubling ?g idle_world = (Inr ?gg, idle_world)"
    by (simp add: http_scope_def configured_def headers_get_def resolve_id_def succeed_def
        doubling_def latin1_decode_append [symmetric])
  have u2: "update_request_headers ?self (headers_get (sheaders (http_scope [])) (header_name ?self))
      ?gg (http_scope [])
      = Inr (http_scope [(''x-request-id'', ''generatedgenerated'')])"
    by (simp add: update_request_headers_def headers_setitem_def http_scope_def configured_def
        headers_get_def)
  have two: "call ?self (http_scope []) no_receive record_send idle_world =
      and_then (run_hooks (hooks ?self) ?gg)
        (\<lambda>_. app ?self (http_scope [(''x-request-id'', ''generatedgenerated'')])
            no_receive (handle_outgoing_request ?self record_send))
        (idle_world\<lparr>correlation_id := Some ?gg\<rparr>)"
    using transformer_applied_on_every_path [where receive = no_receive and send = record_send
        and w = idle_world, OF http(2) tr, THEN conjunct1, rule_format, OF b, THEN conjunct2,
        rule_format, OF u2] .
  have o: "handle_outgoing_request ?self record_send (response_start [])
        (idle_world\<lparr>correlation_id := Some ?gg\<rparr>)
      = (Inr (), idle_world\<lparr>correlation_id := Some ?gg,
        env := [response_start [(''x-request-id'', ''generatedgenerated'')]]\<rparr>)"
    by (simp add: handle_outgoing_request_def headers_append_def configured_def response_start_def
        record_send_def idle_world_def)
  have hooks: "hooks ?self = []" and app: "app ?self = respond [response_start []]"
    by (simp_all add: configured_def)
  let ?echo = "configured echo_request_headers (succeed ?g) (Some default_validator)
      (Some doubling) []"
  have tr': "transformer ?echo = Some doubling" by (simp add: configured_def)
  have ok: "is_valid_uuid4 ?cid = Inr True"
    by (rule is_valid_uuid4_hex32) (simp add: hex32_def is_hex_def hex_digit_def)
  have c: "headers_get (sheaders ?sc) (header_name ?echo) = Some ?cid \<and> ?cid \<noteq> [] \<and>
     validator ?echo = Some default_validator \<and>
     default_validator ?cid idle_world = (Inr True, idle_world) \<and>
     doubling ?id idle_world = (Inr ?f, idle_world)"
    by (simp add: http_scope_def configured_def headers_get_def default_validator_def ok
        doubling_def succeed_def latin1_decode_append [symmetric])
  have u3: "update_request_headers ?echo (Some ?cid) ?f ?sc
      = Inr (http_scope [(''x-request-id'', ?cid @ ?cid)])"
    by (simp add: update_request_headers_def headers_setitem_def http_scope_def configured_def)
  have three: "call ?echo ?sc no_receive record_send idle_world =
      and_then (run_hooks (hooks ?echo) ?f)
        (\<lambda>_. app ?echo (http_scope [(''x-request-id'', ?cid @ ?cid)])
            no_receive (handle_outgoing_request ?echo record_send))
        (idle_world\<lparr>correlation_id := Some ?f\<rparr>)"
    using transformer_applied_on_every_path [where receive = no_receive and send = record_send
        and w = idle_world, OF http(1) tr', THEN conjunct2, THEN conjunct1, rule_format, OF c,
        THEN conjunct2, rule_format, OF u3] .
  have e3: "and_then (run_hooks (hooks ?echo) ?f)
        (\<lambda>_. app ?echo (http_scope [(''x-request-id'', ?cid @ ?cid)])
            no_receive (handle_outgoing_request ?echo record_send))
        (idle_world\<lparr>correlation_id := Some ?f\<rparr>)
      = (Inr (), idle_world\<lparr>correlation_id := Some ?f,
        env := [\<lparr>mtype = ''http.response.body'',
                 mheaders = Some [(''x-request-id'', ?cid @ ?cid)], mother = []\<rparr>]\<rparr>)"
    by (simp add: configured_def http_scope_def
        echo_request_headers_def handle_outgoing_request_def record_send_def idle_world_def
        succeed_def split: option.splits)
  show ?thesis
    unfolding one two three e3 hooks app
    by (simp add: o) (simp add: record_send_def response_start_def idle_world_def)
qed


text \<open>
  Claim C9. In an HTTP request an exception of the generator (called because the header is
  absent or empty, or because the validator rejected it), of the transformer, or of the
  first hook that raises (the hooks run once the header update of line 75 has returned) is
  the result of the call, with the world as the raising callable left it, whatever the
  inner application is: it is not called. A rejected inbound value raises nothing: the
  generator's ID is taken, one warning is logged and the call goes on with the transformer
  on that ID; when the transformer, the header update and the hooks return, the inner
  application is called.
\<close>

theorem exceptions_propagate_invalid_id_recovers:
  assumes http: "stype sc = ''http''"
  shows
   "((headers_get (sheaders sc) (header_name self) = None \<or>
      headers_get (sheaders sc) (header_name self) = Some []) \<and>
     generator self w = (Inl e, w1) \<longrightarrow>
       call (self\<lparr>app := a\<rparr>) sc receive send w = (Inl e, w1)) \<and>
    (headers_get (sheaders sc) (header_name self) = Some v \<and> v \<noteq> [] \<and>
     validator self = Some vd \<and> vd v w = (Inr False, w0) \<and> generator self w0 = (Inl e, w1) \<longrightarrow>
       call (self\<lparr>app := a\<rparr>) sc receive send w = (Inl e, w1)) \<and>
    (resolve_id self (headers_get (sheaders sc) (header_name self)) w = (Inr r, w1) \<and>
     transformer self = Some t \<and> t r w1 = (Inl e, w2) \<longrightarrow>
       call (self\<lparr>app := a\<rparr>) sc receive send w = (Inl e, w2)) \<and>
    (resolve_id self (headers_get (sheaders sc) (header_name self)) w = (Inr r, w1) \<and>
     transform_id self r w1 = (Inr f, w2) \<and>
     update_request_headers self (headers_get (sheaders sc) (header_name self)) f sc = Inr sc' \<and>
     hooks self = pre @ h # post \<and>
     run_hooks pre f (w2\<lparr>correlation_id := Some f\<rparr>) = (Inr (), w3) \<and> h f w3 = (Inl e, w4) \<longrightarrow>
       call (self\<lparr>app := a\<rparr>) sc receive send w = (Inl e, w4)) \<and>
    (headers_get (sheaders sc) (header_name self) = Some v \<and> v \<noteq> [] \<and>
     validator self = Some vd \<and> vd v w = (Inr False, w0) \<and> generator self w0 = (Inr g, w1) \<longrightarrow>
       resolve_id self (headers_get (sheaders sc) (header_name self)) w =
         (Inr g, w1\<lparr>log_records := log_records w1 @
            [\<lparr>levelname = WARNING, msg = FAILED_VALIDATION_MESSAGE, args = [v]\<rparr>]\<rparr>) \<and>
       call self sc receive send w =
         proceed self sc (Some v) receive send g
           (w1\<lparr>log_records := log_records w1 @
              [\<lparr>levelname = WARNING, msg = FAILED_VALIDATION_MESSAGE, args = [v]\<rparr>]\<rparr>) \<and>
       (transform_id self g (w1\<lparr>log_records := log_records w1 @
            [\<lparr>levelname = WARNING, msg = FAILED_VALIDATION_MESSAGE, args = [v]\<rparr>]\<rparr>) = (Inr f, w2) \<and>
        update_request_headers self (Some v) f sc = Inr sc' \<and>
        run_hooks (hooks self) f (w2\<lparr>correlation_id := Some f\<rparr>) = (Inr (), w3) \<longrightarrow>
          call self sc receive send w =
            app self sc' receive (handle_outgoing_request self send) w3))"
proof -
  let ?hv = "headers_get (sheaders sc) (header_name self)"
  let ?self = "self\<lparr>app := a\<rparr>"
  have n: "header_name ?self = header_name self" by simp
  have gen_absent: "call ?self sc receive send w = (Inl e, w1)"
    if "(?hv = None \<or> ?hv = Some []) \<and> generator self w = (Inl e, w1)"
  proof -
    from that have "resolve_id self ?hv w = (Inl e, w1)"
      by (auto simp: resolve_id_def)
    then show ?thesis
      using call_http_resolve_raises [of sc ?self w e w1 receive send] http by simp
  qed
  have gen_invalid: "call ?self sc receive send w = (Inl e, w1)"
    if "?hv = Some v \<and> v \<noteq> [] \<and> validator self = Some vd \<and> vd v w = (Inr False, w0) \<and>
        generator self w0 = (Inl e, w1)"
  proof -
    from that have "resolve_id self ?hv w = (Inl e, w1)"
      by (simp add: resolve_id_def and_then_def)
    then show ?thesis
      using call_http_resolve_raises [of sc ?self w e w1 receive send] http by simp
  qed
  have trans: "call ?self sc receive send w = (Inl e, w2)"
    if "resolve_id self ?hv w = (Inr r, w1) \<and> transformer self = Some t \<and> t r w1 = (Inl e, w2)"
  proof -
    from that have "transform_id self r w1 = (Inl e, w2)" by (simp add: transform_id_def)
    with that show ?thesis
      using call_http_transform_raises [of sc ?self w r w1 e w2 receive send] http by simp
  qed
  have hook: "call ?self sc receive send w = (Inl e, w4)"
    if "resolve_id self ?hv w = (Inr r, w1) \<and> transform_id self r w1 = (Inr f, w2) \<and>
        update_request_headers self ?hv f sc = Inr sc' \<and>
        hooks self = pre @ h # post \<and>
        run_hooks pre f (w2\<lparr>correlation_id := Some f\<rparr>) = (Inr (), w3) \<and> h f w3 = (Inl e, w4)"
  proof -
    from that have k: "run_hooks (hooks ?self) f (w2\<lparr>correlation_id := Some f\<rparr>) = (Inl e, w4)"
      using run_hooks_raise [of pre f "w2\<lparr>correlation_id := Some f\<rparr>" w3 h e w4 post] by simp
    from that have u: "update_request_headers ?self ?hv f sc = Inr sc'" by simp
    from that have "call ?self sc receive send w = finish ?self sc ?hv receive send f w2"
      using call_http_steps [of sc ?self w r w1 f w2 receive send] http by simp
    then show ?thesis
      unfolding finish_ok [OF u] using k by (simp add: and_then_def)
  qed
  have recover: "resolve_id self ?hv w =
         (Inr g, w1\<lparr>log_records := log_records w1 @
            [\<lparr>levelname = WARNING, msg = FAILED_VALIDATION_MESSAGE, args = [v]\<rparr>]\<rparr>) \<and>
       call self sc receive send w =
         proceed self sc (Some v) receive send g
           (w1\<lparr>log_records := log_records w1 @
              [\<lparr>levelname = WARNING, msg = FAILED_VALIDATION_MESSAGE, args = [v]\<rparr>]\<rparr>) \<and>
       (transform_id self g (w1\<lparr>log_records := log_records w1 @
            [\<lparr>levelname = WARNING, msg = FAILED_VALIDATION_MESSAGE, args = [v]\<rparr>]\<rparr>) = (Inr f, w2) \<and>
        update_request_headers self (Some v) f sc = Inr sc' \<and>
        run_hooks (hooks self) f (w2\<lparr>correlation_id := Some f\<rparr>) = (Inr (), w3) \<longrightarrow>
          call self sc receive send w =
            app self sc' receive (handle_outgoing_request self send) w3)"
    if a: "?hv = Some v \<and> v \<noteq> [] \<and> validator self = Some vd \<and> vd v w = (Inr False, w0) \<and>
        generator self w0 = (Inr g, w1)"
  proof -
    let ?w = "w1\<lparr>log_records := log_records w1 @
            [\<lparr>levelname = WARNING, msg = FAILED_VALIDATION_MESSAGE, args = [v]\<rparr>]\<rparr>"
    from a have r: "resolve_id self ?hv w = (Inr g, ?w)"
      by (simp add: resolve_id_def and_then_def succeed_def logger_warning_def)
    have p: "call self sc receive send w = proceed self sc (Some v) receive send g ?w"
      using a r by (simp add: call_http [OF http] and_then_def)
    have "call self sc receive send w =
            app self sc' receive (handle_outgoing_request self send) w3"
      if t: "transform_id self g ?w = (Inr f, w2)"
        and u: "update_request_headers self (Some v) f sc = Inr sc'"
        and k: "run_hooks (hooks self) f (w2\<lparr>correlation_id := Some f\<rparr>) = (Inr (), w3)"
    proof -
      from a u have u': "update_request_headers self ?hv f sc = Inr sc'" by simp
      show ?thesis
        unfolding call_http_steps [OF http r t] finish_ok [OF u'] using k
        by (simp add: and_then_def)
    qed
    with r p show ?thesis by blast
  qed
  show ?thesis
    using gen_absent gen_invalid trans hook recover by blast
qed

theorem exceptions_propagate_invalid_id_recovers_witness:
  "call ((configured (respond []) (failing ''generator'') (Some default_validator)
            (Some default_transformer) [])\<lparr>app := respond [response_start []]\<rparr>)
        (http_scope []) no_receive record_send idle_world
     = (Inl (Exception ''generator''), idle_world) \<and>
   call ((configured (respond []) (failing ''generator'') (Some default_validator)
            (Some default_transformer) [])\<lparr>app := respond [response_start []]\<rparr>)
        (http_scope [(''x-request-id'', ''bad-uuid'')]) no_receive record_send idle_world
     = (Inl (Exception ''generator''), idle_world) \<and>
   call ((configured (respond []) (succeed (latin1_decode ''generated'')) None
            (Some (\<lambda>v. failing ''transformer'')) [])\<lparr>app := respond [response_start []]\<rparr>)
        (http_scope [(''x-request-id'', ''bad-uuid'')]) no_receive record_send idle_world
     = (Inl (Exception ''transformer''), idle_world) \<and>
   call ((configured (respond []) (succeed (latin1_decode ''generated'')) None None
            [\<lambda>v. succeed (), \<lambda>v. failing ''hook'', \<lambda>v. failing ''later''])
              \<lparr>app := respond [response_start []]\<rparr>)
        (http_scope [(''x-request-id'', ''bad-uuid'')]) no_receive record_send idle_world
     = (Inl (Exception ''hook''), idle_world\<lparr>correlation_id := Some (latin1_decode ''bad-uuid'')\<rparr>) \<and>
   call (configured (respond [response_start []]) (succeed (latin1_decode ''generated''))
            (Some default_validator) (Some default_transformer) [\<lambda>v. succeed ()])
        (http_scope [(''x-request-id'', ''bad-uuid'')]) no_receive record_send idle_world
     = (Inr (), \<lparr>log_records =
                   [\<lparr>levelname = WARNING, msg = FAILED_VALIDATION_MESSAGE, args = [''bad-uuid'']\<rparr>],
                 correlation_id = Some (latin1_decode ''generated''),
                 env = [response_start [(''x-request-id'', ''generated'')]]\<rparr>)"
proof -
  let ?a = "respond [response_start []] :: (message list) asgi_app"
  let ?bad = "http_scope [(''x-request-id'', ''bad-uuid'')]"
  let ?b = "latin1_decode ''bad-uuid''"
  let ?g = "latin1_decode ''generated''"
  let ?gen = "configured (respond []) (failing ''generator'') (Some default_validator)
            (Some default_transformer) []"
  let ?tr = "configured (respond []) (succeed ?g) None
            (Some (\<lambda>v. failing ''transformer'')) []"
  let ?hk = "configured (respond []) (succeed ?g) None None
            [\<lambda>v. succeed (), \<lambda>v. failing ''hook'', \<lambda>v. failing ''later'']"
  let ?ok = "configured (respond [response_start []]) (succeed ?g) (Some default_validator)
            (Some default_transformer) [\<lambda>v. succeed ()]"
  let ?wl = "idle_world\<lparr>log_records := log_records idle_world @
      [\<lparr>levelname = WARNING, msg = FAILED_VALIDATION_MESSAGE, args = [''bad-uuid'']\<rparr>]\<rparr>"
  have http: "stype (http_scope []) = ''http''" "stype ?bad = ''http''"
    by (simp_all add: http_scope_def)
  have g: "headers_get [(''x-request-id'', ''bad-uuid'')] ''X-Request-ID'' = Some ''bad-uuid''"
      "headers_get [] ''X-Request-ID'' = None"
    by (simp_all add: headers_get_def)
  have h1: "(headers_get (sheaders (http_scope [])) (header_name ?gen) = None \<or>
      headers_get (sheaders (http_scope [])) (header_name ?gen) = Some []) \<and>
     generator ?gen idle_world = (Inl (Exception ''generator''), idle_world)"
    by (simp add: http_scope_def configured_def g failing_def)
  have c1: "call (?gen\<lparr>app := ?a\<rparr>) (http_scope []) no_receive record_send idle_world
      = (Inl (Exception ''generator''), idle_world)"
    by (rule exceptions_propagate_invalid_id_recovers [OF http(1), THEN conjunct1, rule_format, OF h1])
  have h2: "headers_get (sheaders ?bad) (header_name ?gen) = Some ''bad-uuid'' \<and> ''bad-uuid'' \<noteq> [] \<and>
     validator ?gen = Some default_validator \<and>
     default_validator ''bad-uuid'' idle_world = (Inr False, idle_world) \<and>
     generator ?gen idle_world = (Inl (Exception ''generator''), idle_world)"
    by (simp add: http_scope_def configured_def g failing_def default_validator_def bad_uuid_rejected)
  have c2: "call (?gen\<lparr>app := ?a\<rparr>) ?bad no_receive record_send idle_world
      = (Inl (Exception ''generator''), idle_world)"
    by (rule exceptions_propagate_invalid_id_recovers [OF http(2), THEN conjunct2, THEN conjunct1,
          rule_format, OF h2])
  have h3: "resolve_id ?tr (headers_get (sheaders ?bad) (header_name ?tr)) idle_world
        = (Inr ?b, idle_world) \<and>
     transformer ?tr = Some (\<lambda>v. failing ''transformer'') \<and>
     (\<lambda>v. failing ''transformer'') ?b idle_world = (Inl (Exception ''transformer''), idle_world)"
    by (simp add: http_scope_def configured_def g failing_def resolve_id_def succeed_def)
  have c3: "call (?tr\<lparr>app := ?a\<rparr>) ?bad no_receive record_send idle_world
      = (Inl (Exception ''transformer''), idle_world)"
    by (rule exceptions_propagate_invalid_id_recovers [OF http(2), THEN conjunct2, THEN conjunct2,
          THEN conjunct1, rule_format, OF h3])
  have h4: "resolve_id ?hk (headers_get (sheaders ?bad) (header_name ?hk)) idle_world
        = (Inr ?b, idle_world) \<and>
     transform_id ?hk ?b idle_world = (Inr ?b, idle_world) \<and>
     update_request_headers ?hk (headers_get (sheaders ?bad) (header_name ?hk)) ?b ?bad = Inr ?bad \<and>
     hooks ?hk = [\<lambda>v. succeed ()] @ (\<lambda>v. failing ''hook'') # [\<lambda>v. failing ''later''] \<and>
     run_hooks [\<lambda>v. succeed ()] ?b (idle_world\<lparr>correlation_id := Some ?b\<rparr>)
        = (Inr (), idle_world\<lparr>correlation_id := Some ?b\<rparr>) \<and>
     (\<lambda>v. failing ''hook'') ?b (idle_world\<lparr>correlation_id := Some ?b\<rparr>)
        = (Inl (Exception ''hook''), idle_world\<lparr>correlation_id := Some ?b\<rparr>)"
    by (simp add: http_scope_def configured_def g failing_def resolve_id_def transform_id_def
        update_request_headers_def succeed_def and_then_def)
  have c4: "call (?hk\<lparr>app := ?a\<rparr>) ?bad no_receive record_send idle_world
      = (Inl (Exception ''hook''), idle_world\<lparr>correlation_id := Some ?b\<rparr>)"
    by (rule exceptions_propagate_invalid_id_recovers [OF http(2), THEN conjunct2, THEN conjunct2,
          THEN conjunct2, THEN conjunct1, rule_format, OF h4])
  have h5: "headers_get (sheaders ?bad) (header_name ?ok) = Some ''bad-uuid'' \<and> ''bad-uuid'' \<noteq> [] \<and>
     validator ?ok = Some default_validator \<and>
     default_validator ''bad-uuid'' idle_world = (Inr False, idle_world) \<and>
     generator ?ok idle_world = (Inr ?g, idle_world)"
    by (simp add: http_scope_def configured_def g succeed_def default_validator_def bad_uuid_rejected)
  have h5': "transform_id ?ok ?g ?wl = (Inr ?g, ?wl) \<and>
     update_request_headers ?ok (Some ''bad-uuid'') ?g ?bad
       = Inr (http_scope [(''x-request-id'', ''generated'')]) \<and>
     run_hooks (hooks ?ok) ?g (?wl\<lparr>correlation_id := Some ?g\<rparr>)
       = (Inr (), ?wl\<lparr>correlation_id := Some ?g\<rparr>)"
    by (simp add: configured_def transform_id_def default_transformer_def succeed_def and_then_def
        update_request_headers_def headers_setitem_def http_scope_def)
  have c5: "call ?ok ?bad no_receive record_send idle_world
      = app ?ok (http_scope [(''x-request-id'', ''generated'')]) no_receive
          (handle_outgoing_request ?ok record_send) (?wl\<lparr>correlation_id := Some ?g\<rparr>)"
    by (rule exceptions_propagate_invalid_id_recovers [where a = ?a, OF http(2), THEN conjunct2,
          THEN conjunct2, THEN conjunct2, THEN conjunct2, rule_format, OF h5, THEN conjunct2,
          THEN conjunct2, rule_format, OF h5'])
  have e5: "app ?ok (http_scope [(''x-request-id'', ''generated'')]) no_receive
          (handle_outgoing_request ?ok record_send) (?wl\<lparr>correlation_id := Some ?g\<rparr>)
      = (Inr (), \<lparr>log_records =
                   [\<lparr>levelname = WARNING, msg = FAILED_VALIDATION_MESSAGE, args = [''bad-uuid'']\<rparr>],
                 correlation_id = Some ?g,
                 env = [response_start [(''x-request-id'', ''generated'')]]\<rparr>)"
    by (simp add: configured_def handle_outgoing_request_def headers_append_def response_start_def
        record_send_def idle_world_def)
  show ?thesis
    unfolding c1 c2 c3 c4 c5 e5 by simp
qed


end
